theory Spec2Isabelle
  imports Complex_Main "HOL-Library.Sublist"
begin

section \<open>Python strings\<close>

text \<open>
  A Python \<open>str\<close> is modelled as a \<open>string\<close> (a list of 8-bit characters); text outside
  ASCII is written as its UTF-8 bytes.  The operations below are the ones the download
  page of the application uses: \<open>startswith\<close>, \<open>endswith\<close>, \<open>in\<close>, \<open>split\<close>,
  \<open>strip\<close>, \<open>rstrip\<close> and the conversions between integers and decimal text.
\<close>

datatype py_exc =
    IndexError
  | ValueError
  | OverflowError
  | ZeroDivisionError
  | SubprocessError string
  | TimeoutExpired
  | FileNotFoundError
  | PermissionError
  | Exception string

fun startswith :: "string \<Rightarrow> string \<Rightarrow> bool" where
  "startswith s [] = True"
| "startswith [] (p # ps) = False"
| "startswith (c # cs) (p # ps) = (c = p \<and> startswith cs ps)"

definition endswith :: "string \<Rightarrow> string \<Rightarrow> bool" where
  "endswith s p = startswith (rev s) (rev p)"

text \<open>\<open>str_in sub s\<close> is Python's \<open>sub in s\<close>.\<close>

fun str_in :: "string \<Rightarrow> string \<Rightarrow> bool" where
  "str_in sub [] = (sub = [])"
| "str_in sub (c # cs) = (startswith (c # cs) sub \<or> str_in sub cs)"

text \<open>
  \<open>partition_at sep s\<close> cuts \<open>s\<close> at the first occurrence of the non-empty separator
  \<open>sep\<close>; \<open>split1 sep s\<close> is \<open>s.split(sep, 1)\<close>.
\<close>

fun partition_at :: "string \<Rightarrow> string \<Rightarrow> (string \<times> string) option" where
  "partition_at sep [] = None"
| "partition_at sep (c # cs) =
     (if startswith (c # cs) sep then Some ([], drop (length sep) (c # cs))
      else (case partition_at sep cs of
              None \<Rightarrow> None
            | Some (a, b) \<Rightarrow> Some (c # a, b)))"

definition split1 :: "string \<Rightarrow> string \<Rightarrow> string list" where
  "split1 sep s = (case partition_at sep s of None \<Rightarrow> [s] | Some (a, b) \<Rightarrow> [a, b])"

text \<open>\<open>split_chr d s\<close> is \<open>s.split(d)\<close> for a separator of one character.\<close>

fun split_chr :: "char \<Rightarrow> string \<Rightarrow> string list" where
  "split_chr d [] = [[]]"
| "split_chr d (c # cs) =
     (if c = d then [] # split_chr d cs
      else (case split_chr d cs of
              [] \<Rightarrow> [[c]]
            | w # ws \<Rightarrow> (c # w) # ws))"

text \<open>List indexing raises \<open>IndexError\<close> out of range.\<close>

definition py_index :: "'a list \<Rightarrow> nat \<Rightarrow> py_exc + 'a" where
  "py_index xs i = (if i < length xs then Inr (xs ! i) else Inl IndexError)"

text \<open>Decimal text of an integer, as \<open>str(n)\<close> and \<open>f"{n}"\<close> give it.\<close>

definition digit_char :: "int \<Rightarrow> char" where
  "digit_char d = ''0123456789'' ! nat d"

function str_nat :: "int \<Rightarrow> string" where
  "str_nat n = (if n < 10 then [digit_char n] else str_nat (n div 10) @ [digit_char (n mod 10)])"
  by pat_completeness auto
termination
  by (relation "measure nat") auto

declare str_nat.simps [simp del]

definition str_int :: "int \<Rightarrow> string" where
  "str_int i = (if i < 0 then CHR ''-'' # str_nat (- i) else str_nat i)"

text \<open>\<open>os.path.join\<close> with two arguments, in its POSIX form.\<close>

definition path_join :: "string \<Rightarrow> string \<Rightarrow> string" where
  "path_join a b =
     (if startswith b ''/'' then b
      else if a = [] \<or> endswith a ''/'' then a @ b
      else a @ ''/'' @ b)"

text \<open>
  \<open>is_space\<close> holds of the ASCII characters that \<open>str.isspace\<close> accepts, \<open>is_digit\<close> of
  the digits 0 to 9, and \<open>lower\<close> changes the ASCII letters only (its one use looks for the
  ending \<open>/s\<close>).
\<close>

definition is_space :: "char \<Rightarrow> bool" where
  "is_space c = (c \<in> set [CHR '' '', CHR 0x09, CHR 0x0A, CHR 0x0B, CHR 0x0C, CHR 0x0D,
                           CHR 0x1C, CHR 0x1D, CHR 0x1E, CHR 0x1F])"

definition is_digit :: "char \<Rightarrow> bool" where
  "is_digit c = (c \<in> set ''0123456789'')"

text \<open>
  The white space characters beyond ASCII, as UTF-8: U+0085, U+00A0, U+1680, U+2000 to
  U+200A, U+2028, U+2029, U+202F, U+205F and U+3000.  \<open>space_len seqs s\<close> is the number of
  bytes of the white space character at the head of \<open>s\<close>, 0 when there is none.
\<close>

definition unicode_spaces :: "string list" where
  "unicode_spaces =
     [[CHR 0xC2, CHR 0x85], [CHR 0xC2, CHR 0xA0], [CHR 0xE1, CHR 0x9A, CHR 0x80],
      [CHR 0xE2, CHR 0x80, CHR 0x80], [CHR 0xE2, CHR 0x80, CHR 0x81],
      [CHR 0xE2, CHR 0x80, CHR 0x82], [CHR 0xE2, CHR 0x80, CHR 0x83],
      [CHR 0xE2, CHR 0x80, CHR 0x84], [CHR 0xE2, CHR 0x80, CHR 0x85],
      [CHR 0xE2, CHR 0x80, CHR 0x86], [CHR 0xE2, CHR 0x80, CHR 0x87],
      [CHR 0xE2, CHR 0x80, CHR 0x88], [CHR 0xE2, CHR 0x80, CHR 0x89],
      [CHR 0xE2, CHR 0x80, CHR 0x8A], [CHR 0xE2, CHR 0x80, CHR 0xA8],
      [CHR 0xE2, CHR 0x80, CHR 0xA9], [CHR 0xE2, CHR 0x80, CHR 0xAF],
      [CHR 0xE2, CHR 0x81, CHR 0x9F], [CHR 0xE3, CHR 0x80, CHR 0x80]]"

definition space_len :: "string list \<Rightarrow> string \<Rightarrow> nat" where
  "space_len seqs s =
     (case s of
        [] \<Rightarrow> 0
      | c # cs \<Rightarrow>
          (if is_space c then 1
           else (case find (startswith s) seqs of None \<Rightarrow> 0 | Some q \<Rightarrow> length q)))"

function lstrip_of :: "string list \<Rightarrow> string \<Rightarrow> string" where
  "lstrip_of seqs s =
     (if space_len seqs s = 0 then s else lstrip_of seqs (drop (space_len seqs s) s))"
  by pat_completeness auto
termination
  by (relation "measure (\<lambda>(seqs, s). length s)") (auto simp: space_len_def split: list.splits)

declare lstrip_of.simps [simp del]

text \<open>\<open>strip s\<close> is \<open>s.strip()\<close>; the white space at the end is found on the reversed text.\<close>

definition strip :: "string \<Rightarrow> string" where
  "strip s = rev (lstrip_of (map rev unicode_spaces) (rev (lstrip_of unicode_spaces s)))"

definition rstrip_chr :: "char \<Rightarrow> string \<Rightarrow> string" where
  "rstrip_chr d s = rev (dropWhile (\<lambda>c. c = d) (rev s))"

text \<open>\<open>split_ws s\<close> is \<open>s.split()\<close>: the maximal runs of characters that are not white space.\<close>

function split_ws_acc :: "string \<Rightarrow> string \<Rightarrow> string list" where
  "split_ws_acc w [] = (if w = [] then [] else [rev w])"
| "split_ws_acc w (c # cs) =
     (if space_len unicode_spaces (c # cs) = 0 then split_ws_acc (c # w) cs
      else (if w = [] then split_ws_acc [] (drop (space_len unicode_spaces (c # cs)) (c # cs))
            else rev w # split_ws_acc [] (drop (space_len unicode_spaces (c # cs)) (c # cs))))"
  by pat_completeness auto
termination
  by (relation "measure (\<lambda>(w, s). length s)") auto

definition split_ws :: "string \<Rightarrow> string list" where
  "split_ws s = split_ws_acc [] s"

definition lower_chr :: "char \<Rightarrow> char" where
  "lower_chr c =
     (case map_of (zip ''ABCDEFGHIJKLMNOPQRSTUVWXYZ'' ''abcdefghijklmnopqrstuvwxyz'') c of
        None \<Rightarrow> c
      | Some l \<Rightarrow> l)"

definition lower :: "string \<Rightarrow> string" where
  "lower s = map lower_chr s"

section \<open>Python numbers\<close>

text \<open>
  A Python \<open>int\<close> is an \<open>int\<close>.  A Python \<open>float\<close> is a binary64 number: a finite one is
  modelled by the rational number it is, and every operation rounds its exact result to the
  nearest binary64 number, ties to the even significand (\<open>b64\<close>); a result of magnitude
  \<open>2^1024\<close> or more after rounding is an infinity.  The sign of zero is not
  kept; nothing in the modelled code can tell the two zeros apart.
\<close>

datatype pyfloat = Finite rat | PosInf | NegInf | NaN

function bitlen :: "int \<Rightarrow> nat" where
  "bitlen n = (if n \<le> 0 then 0 else Suc (bitlen (n div 2)))"
  by pat_completeness auto
termination
  by (relation "measure nat") auto

declare bitlen.simps [simp del]

definition pow2 :: "int \<Rightarrow> rat" where
  "pow2 e = (if 0 \<le> e then 2 ^ nat e else 1 / 2 ^ nat (- e))"

definition round_half_even :: "rat \<Rightarrow> int" where
  "round_half_even q =
     (let f = \<lfloor>q\<rfloor>; r = q - of_int f
      in if r < 1 / 2 then f
         else if 1 / 2 < r then f + 1
         else if even f then f else f + 1)"

text \<open>\<open>binade a\<close> is the exponent \<open>e\<close> with \<open>2^e \<le> a < 2^(e+1)\<close>, for \<open>a > 0\<close>.\<close>

definition binade :: "rat \<Rightarrow> int" where
  "binade a =
     (if 1 \<le> a then int (bitlen \<lfloor>a\<rfloor>) - 1
      else - int (bitlen (\<lceil>1 / a\<rceil> - 1)))"

definition b64 :: "rat \<Rightarrow> pyfloat" where
  "b64 q =
     (if q = 0 then Finite 0
      else (let a = \<bar>q\<bar>;
                e = binade a;
                u = (if e < - 1022 then - 1074 else e - 52);
                m = round_half_even (a / pow2 u);
                r = of_int m * pow2 u
            in if 1024 \<le> e \<or> (e = 1023 \<and> m = 2 ^ 53) then (if q < 0 then NegInf else PosInf)
               else Finite (if q < 0 then - r else r)))"

text \<open>An integer too large for a float raises when it is converted.\<close>

definition float_of_int :: "int \<Rightarrow> py_exc + pyfloat" where
  "float_of_int i = (case b64 (of_int i) of Finite a \<Rightarrow> Inr (Finite a) | _ \<Rightarrow> Inl OverflowError)"

fun fneg :: "pyfloat \<Rightarrow> pyfloat" where
  "fneg (Finite a) = Finite (- a)"
| "fneg PosInf = NegInf"
| "fneg NegInf = PosInf"
| "fneg NaN = NaN"

definition fsign :: "pyfloat \<Rightarrow> int" where
  "fsign x =
     (case x of
        Finite a \<Rightarrow> (if a < 0 then - 1 else if a = 0 then 0 else 1)
      | PosInf \<Rightarrow> 1
      | NegInf \<Rightarrow> - 1
      | NaN \<Rightarrow> 0)"

text \<open>Multiplication and division of floats; a float divisor of zero raises in Python.\<close>

definition fmul :: "pyfloat \<Rightarrow> pyfloat \<Rightarrow> pyfloat" where
  "fmul x y =
     (case (x, y) of
        (Finite a, Finite b) \<Rightarrow> b64 (a * b)
      | (NaN, _) \<Rightarrow> NaN
      | (_, NaN) \<Rightarrow> NaN
      | _ \<Rightarrow> (if fsign x * fsign y = 0 then NaN
              else if 0 < fsign x * fsign y then PosInf else NegInf))"

definition fdiv :: "pyfloat \<Rightarrow> pyfloat \<Rightarrow> py_exc + pyfloat" where
  "fdiv x y =
     (case (x, y) of
        (_, Finite b) \<Rightarrow>
          (if b = 0 then Inl ZeroDivisionError
           else (case x of
                   Finite a \<Rightarrow> Inr (b64 (a / b))
                 | NaN \<Rightarrow> Inr NaN
                 | _ \<Rightarrow> Inr (if 0 < fsign x * fsign y then PosInf else NegInf)))
      | (NaN, _) \<Rightarrow> Inr NaN
      | (_, NaN) \<Rightarrow> Inr NaN
      | (Finite a, _) \<Rightarrow> Inr (Finite 0)
      | _ \<Rightarrow> Inr NaN)"

text \<open>\<open>x >= n\<close> for a float and an integer; every comparison with NaN is false.\<close>

definition fge_int :: "pyfloat \<Rightarrow> int \<Rightarrow> bool" where
  "fge_int x n = (case x of Finite a \<Rightarrow> of_int n \<le> a | PosInf \<Rightarrow> True | _ \<Rightarrow> False)"

text \<open>\<open>int(x)\<close> truncates towards zero and raises on an infinity or NaN.\<close>

definition int_of_float :: "pyfloat \<Rightarrow> py_exc + int" where
  "int_of_float x =
     (case x of
        Finite a \<Rightarrow> Inr (if 0 \<le> a then \<lfloor>a\<rfloor> else \<lceil>a\<rceil>)
      | NaN \<Rightarrow> Inl ValueError
      | _ \<Rightarrow> Inl OverflowError)"

text \<open>Truthiness of a float: zero is false; NaN and the infinities are true.\<close>

definition float_truthy :: "pyfloat \<Rightarrow> bool" where
  "float_truthy x = (x \<noteq> Finite 0)"

text \<open>
  \<open>fmt_d2 i\<close> is \<open>f"{i:02d}"\<close>.  \<open>fmt_fixed nd x\<close> is \<open>f"{x:.2f}"\<close> and \<open>f"{x:.0f}"\<close> for
  \<open>nd\<close> 2 and 0: the exact value of the float rounded to \<open>nd\<close> decimals, ties to even.
\<close>

definition fmt_d2 :: "int \<Rightarrow> string" where
  "fmt_d2 i = (if 0 \<le> i \<and> i < 10 then CHR ''0'' # str_int i else str_int i)"

definition pad_zeros :: "nat \<Rightarrow> string \<Rightarrow> string" where
  "pad_zeros n s = replicate (n - length s) CHR ''0'' @ s"

definition fmt_fixed :: "nat \<Rightarrow> pyfloat \<Rightarrow> string" where
  "fmt_fixed nd x =
     (case x of
        Finite a \<Rightarrow>
          (let n = round_half_even (\<bar>a\<bar> * 10 ^ nd);
               body = str_nat (n div 10 ^ nd)
                      @ (if nd = 0 then [] else CHR ''.'' # pad_zeros nd (str_nat (n mod 10 ^ nd)))
           in if a < 0 then CHR ''-'' # body else body)
      | PosInf \<Rightarrow> ''inf''
      | NegInf \<Rightarrow> ''-inf''
      | NaN \<Rightarrow> ''nan'')"

subsection \<open>Reading numbers from text\<close>

definition digit_val :: "char \<Rightarrow> int" where
  "digit_val c = of_char c - 48"

definition dec_val :: "string \<Rightarrow> int" where
  "dec_val ds = foldl (\<lambda>n c. 10 * n + digit_val c) 0 ds"

text \<open>
  A digit part is a digit followed by digits, each optionally preceded by one underscore.
  \<open>take_digitpart s\<close> reads the longest one at the head of \<open>s\<close> and returns its digits and
  the rest of the text.
\<close>

fun digitpart_rest :: "string \<Rightarrow> string \<times> string" where
  "digitpart_rest [] = ([], [])"
| "digitpart_rest [c] = (if is_digit c then ([c], []) else ([], [c]))"
| "digitpart_rest (c # c2 # cs) =
     (if is_digit c then (case digitpart_rest (c2 # cs) of (d, r) \<Rightarrow> (c # d, r))
      else if c = CHR ''_'' \<and> is_digit c2 then (case digitpart_rest cs of (d, r) \<Rightarrow> (c2 # d, r))
      else ([], c # c2 # cs))"

definition take_digitpart :: "string \<Rightarrow> (string \<times> string) option" where
  "take_digitpart s =
     (case s of
        [] \<Rightarrow> None
      | c # cs \<Rightarrow> (if is_digit c then (case digitpart_rest cs of (d, r) \<Rightarrow> Some (c # d, r))
                   else None))"

text \<open>
  Before \<open>int\<close> and \<open>float\<close> read a text that is not pure ASCII, every white space
  character beyond ASCII becomes a blank and every decimal digit of another script becomes
  the ASCII digit of its value; any other character beyond ASCII makes the text invalid.
  \<open>digit_zeros\<close> lists the code points of the digits zero (Unicode 14); the other nine
  digits of a script follow its zero.  Around the number, \<open>int\<close> and \<open>float\<close> skip the
  white space of C only: blank, tab, line feed, vertical tab, form feed, carriage return.
\<close>

definition is_ascii :: "char \<Rightarrow> bool" where
  "is_ascii c = ((of_char c :: int) < 128)"

definition cont_val :: "char \<Rightarrow> int" where
  "cont_val c = of_char c - 128"

fun decode_utf8 :: "string \<Rightarrow> int list option" where
  "decode_utf8 [] = Some []"
| "decode_utf8 (c # cs) =
     (let b = (of_char c :: int)
      in if b < 128 then map_option (Cons b) (decode_utf8 cs)
         else if 192 \<le> b \<and> b < 224 then
           (case cs of
              c1 # r \<Rightarrow> map_option (Cons ((b - 192) * 64 + cont_val c1)) (decode_utf8 r)
            | _ \<Rightarrow> None)
         else if 224 \<le> b \<and> b < 240 then
           (case cs of
              c1 # c2 # r \<Rightarrow>
                map_option (Cons ((b - 224) * 4096 + cont_val c1 * 64 + cont_val c2)) (decode_utf8 r)
            | _ \<Rightarrow> None)
         else if 240 \<le> b \<and> b < 248 then
           (case cs of
              c1 # c2 # c3 # r \<Rightarrow>
                map_option (Cons ((b - 240) * 262144 + cont_val c1 * 4096 + cont_val c2 * 64
                                  + cont_val c3)) (decode_utf8 r)
            | _ \<Rightarrow> None)
         else None)"

definition space_points :: "int list" where
  "space_points =
     [0x85, 0xA0, 0x1680, 0x2000, 0x2001, 0x2002, 0x2003, 0x2004, 0x2005, 0x2006, 0x2007,
      0x2008, 0x2009, 0x200A, 0x2028, 0x2029, 0x202F, 0x205F, 0x3000]"

definition digit_zeros :: "int list" where
  "digit_zeros =
     [0x660, 0x6F0, 0x7C0, 0x966, 0x9E6, 0xA66, 0xAE6, 0xB66, 0xBE6, 0xC66, 0xCE6, 0xD66,
      0xDE6, 0xE50, 0xED0, 0xF20, 0x1040, 0x1090, 0x17E0, 0x1810, 0x1946, 0x19D0, 0x1A80,
      0x1A90, 0x1B50, 0x1BB0, 0x1C40, 0x1C50, 0xA620, 0xA8D0, 0xA900, 0xA9D0, 0xA9F0,
      0xAA50, 0xABF0, 0xFF10, 0x104A0, 0x10D30, 0x11066, 0x110F0, 0x11136, 0x111D0,
      0x112F0, 0x11450, 0x114D0, 0x11650, 0x116C0, 0x11730, 0x118E0, 0x11950, 0x11C50,
      0x11D50, 0x11DA0, 0x16A60, 0x16AC0, 0x16B50, 0x1D7CE, 0x1D7D8, 0x1D7E2, 0x1D7EC,
      0x1D7F6, 0x1E140, 0x1E2F0, 0x1E950, 0x1FBF0]"

definition ascii_of_point :: "int \<Rightarrow> char option" where
  "ascii_of_point p =
     (if p < 128 then Some (char_of p)
      else if p \<in> set space_points then Some CHR '' ''
      else (case find (\<lambda>z. z \<le> p \<and> p < z + 10) digit_zeros of
              None \<Rightarrow> None
            | Some z \<Rightarrow> Some (digit_char (p - z))))"

fun all_some :: "'a option list \<Rightarrow> 'a list option" where
  "all_some [] = Some []"
| "all_some (None # xs) = None"
| "all_some (Some x # xs) = map_option (Cons x) (all_some xs)"

definition to_ascii_numeric :: "string \<Rightarrow> string option" where
  "to_ascii_numeric s =
     (if list_all is_ascii s then Some s
      else (case decode_utf8 s of
              None \<Rightarrow> None
            | Some ps \<Rightarrow> all_some (map ascii_of_point ps)))"

definition is_space_c :: "char \<Rightarrow> bool" where
  "is_space_c c = (c \<in> set [CHR '' '', CHR 0x09, CHR 0x0A, CHR 0x0B, CHR 0x0C, CHR 0x0D])"

definition strip_c :: "string \<Rightarrow> string" where
  "strip_c s = rev (dropWhile is_space_c (rev (dropWhile is_space_c s)))"

definition take_sign :: "string \<Rightarrow> bool \<times> string" where
  "take_sign s =
     (case s of
        [] \<Rightarrow> (False, [])
      | c # cs \<Rightarrow> (if c = CHR ''-'' then (True, cs)
                   else if c = CHR ''+'' then (False, cs)
                   else (False, c # cs)))"

text \<open>
  \<open>int(s)\<close> for a string, base ten.  A text of more than 4300 digits is refused (the
  limit on integer string conversion of Python 3.11).
\<close>

definition py_int :: "string \<Rightarrow> py_exc + int" where
  "py_int s =
     (case to_ascii_numeric s of
        None \<Rightarrow> Inl ValueError
      | Some a \<Rightarrow>
          (case take_sign (strip_c a) of
             (neg, t) \<Rightarrow>
               (case take_digitpart t of
                  Some (ds, []) \<Rightarrow>
                    (if 4300 < int (length ds) then Inl ValueError
                     else Inr (if neg then - dec_val ds else dec_val ds))
                | _ \<Rightarrow> Inl ValueError)))"

text \<open>
  \<open>float(s)\<close> for a string: optional sign, then \<open>inf\<close>, \<open>infinity\<close> or \<open>nan\<close> in any case,
  or a decimal number with an optional exponent.
\<close>

definition scale10 :: "rat \<Rightarrow> int \<Rightarrow> rat" where
  "scale10 m e = (if 0 \<le> e then m * 10 ^ nat e else m / 10 ^ nat (- e))"

definition float_exponent :: "rat \<Rightarrow> string \<Rightarrow> rat option" where
  "float_exponent m r =
     (case r of
        [] \<Rightarrow> Some m
      | c # cs \<Rightarrow>
          (if c = CHR ''e'' \<or> c = CHR ''E'' then
             (case take_sign cs of
                (neg, t) \<Rightarrow>
                  (case take_digitpart t of
                     Some (ds, []) \<Rightarrow>
                       Some (scale10 m (if neg then - dec_val ds else dec_val ds))
                   | _ \<Rightarrow> None))
           else None))"

definition float_number :: "string \<Rightarrow> rat option" where
  "float_number s =
     (case take_digitpart s of
        Some (ip, r) \<Rightarrow>
          (case r of
             c # r2 \<Rightarrow>
               (if c = CHR ''.'' then
                  (case take_digitpart r2 of
                     Some (fp, r3) \<Rightarrow>
                       float_exponent (of_int (dec_val ip) + of_int (dec_val fp) / 10 ^ length fp) r3
                   | None \<Rightarrow> float_exponent (of_int (dec_val ip)) r2)
                else float_exponent (of_int (dec_val ip)) r)
           | [] \<Rightarrow> Some (of_int (dec_val ip)))
      | None \<Rightarrow>
          (case s of
             c # r2 \<Rightarrow>
               (if c = CHR ''.'' then
                  (case take_digitpart r2 of
                     Some (fp, r3) \<Rightarrow> float_exponent (of_int (dec_val fp) / 10 ^ length fp) r3
                   | None \<Rightarrow> None)
                else None)
           | [] \<Rightarrow> None))"

definition py_float :: "string \<Rightarrow> py_exc + pyfloat" where
  "py_float s =
     (case to_ascii_numeric s of
        None \<Rightarrow> Inl ValueError
      | Some a \<Rightarrow>
          (case take_sign (strip_c a) of
             (neg, t) \<Rightarrow>
               (if lower t = ''inf'' \<or> lower t = ''infinity''
                  then Inr (if neg then NegInf else PosInf)
                else if lower t = ''nan'' then Inr NaN
                else (case float_number t of
                        None \<Rightarrow> Inl ValueError
                      | Some m \<Rightarrow> Inr (b64 (if neg then - m else m))))))"

subsection \<open>Text of a float\<close>

text \<open>
  \<open>float_repr x\<close> is \<open>f"{x}"\<close>: the shortest decimal text that reads back as \<open>x\<close>, in
  positional notation when the decimal point falls within 16 digits and not more than 4
  places to the left, in exponent notation otherwise.
\<close>

definition dec_exp :: "rat \<Rightarrow> int" where
  "dec_exp a =
     (if 1 \<le> a then int (length (str_nat \<lfloor>a\<rfloor>)) - 1
      else - int (length (str_nat (\<lceil>1 / a\<rceil> - 1))))"

definition repr_candidate :: "rat \<Rightarrow> nat \<Rightarrow> int \<times> int" where
  "repr_candidate a p =
     (let q = dec_exp a - int p + 1 in (round_half_even (a / scale10 1 q), q))"

fun shortest_digits :: "rat \<Rightarrow> nat list \<Rightarrow> int \<times> int" where
  "shortest_digits a [] = repr_candidate a 17"
| "shortest_digits a (p # ps) =
     (case repr_candidate a p of
        (n, q) \<Rightarrow> (if b64 (scale10 (of_int n) q) = Finite a then (n, q) else shortest_digits a ps))"

definition strip_zeros :: "string \<Rightarrow> string" where
  "strip_zeros ds = rev (dropWhile (\<lambda>c. c = CHR ''0'') (rev ds))"

definition repr_layout :: "string \<Rightarrow> int \<Rightarrow> string" where
  "repr_layout ds decpt =
     (if - 4 < decpt \<and> decpt \<le> 16 then
        (if decpt \<le> 0 then ''0.'' @ replicate (nat (- decpt)) CHR ''0'' @ ds
         else if int (length ds) \<le> decpt
           then ds @ replicate (nat (decpt - int (length ds))) CHR ''0'' @ ''.0''
         else take (nat decpt) ds @ ''.'' @ drop (nat decpt) ds)
      else take 1 ds @ (if length ds = 1 then [] else CHR ''.'' # drop 1 ds) @ ''e''
           @ (if decpt - 1 < 0 then ''-'' else ''+'') @ fmt_d2 \<bar>decpt - 1\<bar>)"

definition float_repr :: "pyfloat \<Rightarrow> string" where
  "float_repr x =
     (case x of
        Finite a \<Rightarrow>
          (if a = 0 then ''0.0''
           else (case shortest_digits \<bar>a\<bar> [1 ..< 17] of
                   (n, q) \<Rightarrow>
                     (let ds = str_nat n
                      in (if a < 0 then ''-'' else []) @ repr_layout (strip_zeros ds) (int (length ds) + q))))
      | PosInf \<Rightarrow> ''inf''
      | NegInf \<Rightarrow> ''-inf''
      | NaN \<Rightarrow> ''nan'')"

section \<open>Token normalisation helpers of the download worker\<close>

text \<open>
  \<open>re_size_match token\<close> is \<open>re.match(r"([0-9]+(?:\.[0-9]+)?)([KMG]i?B)", token)\<close>: the two
  groups when the head of the token matches, \<open>None\<close> otherwise.
\<close>

definition re_size_match :: "string \<Rightarrow> (string \<times> string) option" where
  "re_size_match token =
     (let d1 = takeWhile is_digit token; r1 = dropWhile is_digit token
      in if d1 = [] then None
         else (case (case r1 of
                       [] \<Rightarrow> (d1, r1)
                     | c # r \<Rightarrow>
                         (if c = CHR ''.'' \<and> takeWhile is_digit r \<noteq> []
                          then (d1 @ ''.'' @ takeWhile is_digit r, dropWhile is_digit r)
                          else (d1, r1))) of
                 (num, r2) \<Rightarrow>
                   (case r2 of
                      [] \<Rightarrow> None
                    | u # r3 \<Rightarrow>
                        (if u \<in> set ''KMG'' then
                           (if startswith r3 ''iB'' then Some (num, u # ''iB'')
                            else if startswith r3 ''B'' then Some (num, u # ''B'')
                            else None)
                         else None))))"

text \<open>
  \<open>_humanize_yt_dlp_size\<close>.  The body of the \<open>try\<close> is \<open>humanize_yt_dlp_size_try\<close>; the
  \<open>except Exception\<close> turns a raise into the empty string.
\<close>

definition humanize_yt_dlp_size_try :: "string \<Rightarrow> py_exc + string" where
  "humanize_yt_dlp_size_try token =
     (case re_size_match token of
        None \<Rightarrow> Inr []
      | Some (g1, unit) \<Rightarrow>
          (case py_float g1 of
             Inl e \<Rightarrow> Inl e
           | Inr val \<Rightarrow>
               Inr (if startswith unit ''G'' then fmt_fixed 2 val @ '' GB''
                    else if startswith unit ''M'' then fmt_fixed 2 val @ '' MB''
                    else if startswith unit ''K'' then fmt_fixed 0 val @ '' KB''
                    else float_repr val @ '' B'')))"

definition humanize_yt_dlp_size :: "string \<Rightarrow> string" where
  "humanize_yt_dlp_size token =
     (case humanize_yt_dlp_size_try token of Inl e \<Rightarrow> [] | Inr t \<Rightarrow> t)"

text \<open>\<open>_size_token_to_bytes\<close>, with \<open>None\<close> for Python's \<open>None\<close>.\<close>

definition size_token_to_bytes_try :: "string \<Rightarrow> py_exc + pyfloat option" where
  "size_token_to_bytes_try token =
     (case re_size_match token of
        None \<Rightarrow> Inr None
      | Some (g1, unit) \<Rightarrow>
          (case py_float g1 of
             Inl e \<Rightarrow> Inl e
           | Inr val \<Rightarrow>
               (let factor = (if startswith unit ''K'' then Finite 1024
                              else if startswith unit ''M'' then Finite (1024 ^ 2)
                              else if startswith unit ''G'' then Finite (1024 ^ 3)
                              else Finite 1)
                in Inr (Some (fmul val factor)))))"

definition size_token_to_bytes :: "string \<Rightarrow> pyfloat option" where
  "size_token_to_bytes token =
     (case size_token_to_bytes_try token of Inl e \<Rightarrow> None | Inr r \<Rightarrow> r)"

text \<open>\<open>_humanize_bytes\<close>.\<close>

definition humanize_bytes_try :: "pyfloat \<Rightarrow> py_exc + string" where
  "humanize_bytes_try nbytes =
     (if fge_int nbytes (1024 ^ 3) then
        (case fdiv nbytes (Finite (1024 ^ 3)) of
           Inl e \<Rightarrow> Inl e | Inr x \<Rightarrow> Inr (fmt_fixed 2 x @ '' GB''))
      else if fge_int nbytes (1024 ^ 2) then
        (case fdiv nbytes (Finite (1024 ^ 2)) of
           Inl e \<Rightarrow> Inl e | Inr x \<Rightarrow> Inr (fmt_fixed 2 x @ '' MB''))
      else if fge_int nbytes 1024 then
        (case fdiv nbytes (Finite 1024) of
           Inl e \<Rightarrow> Inl e | Inr x \<Rightarrow> Inr (fmt_fixed 0 x @ '' KB''))
      else (case int_of_float nbytes of
              Inl e \<Rightarrow> Inl e | Inr i \<Rightarrow> Inr (str_int i @ '' B'')))"

definition humanize_bytes :: "pyfloat \<Rightarrow> string" where
  "humanize_bytes nbytes = (case humanize_bytes_try nbytes of Inl e \<Rightarrow> [] | Inr t \<Rightarrow> t)"

text \<open>\<open>_humanize_speed\<close>; \<open>token[:-2]\<close> drops the last two characters.\<close>

definition humanize_speed :: "string \<Rightarrow> string" where
  "humanize_speed token =
     (if endswith (lower token) ''/s'' then
        (let base = take (length token - 2) token;
             text = humanize_yt_dlp_size base
         in if text \<noteq> [] then text @ ''/s'' else token)
      else token)"

text \<open>
  \<open>_format_eta\<close>.  The body of the \<open>try\<close> is \<open>format_eta_try\<close>; the \<open>except Exception\<close>
  returns \<open>eta_token or ""\<close>.
\<close>

definition format_eta_try :: "string \<Rightarrow> py_exc + string" where
  "format_eta_try eta_token =
     (case split_chr CHR '':'' eta_token of
        [mm, ss] \<Rightarrow>
          (case py_int mm of
             Inl e \<Rightarrow> Inl e
           | Inr m \<Rightarrow>
               (case py_int ss of
                  Inl e \<Rightarrow> Inl e
                | Inr s \<Rightarrow> Inr (fmt_d2 m @ '':'' @ fmt_d2 s)))
      | [hh, mm, ss] \<Rightarrow>
          (case py_int hh of
             Inl e \<Rightarrow> Inl e
           | Inr h \<Rightarrow>
               (case py_int mm of
                  Inl e \<Rightarrow> Inl e
                | Inr m \<Rightarrow>
                    (case py_int ss of
                       Inl e \<Rightarrow> Inl e
                     | Inr s \<Rightarrow> Inr (str_int h @ '':'' @ fmt_d2 m @ '':'' @ fmt_d2 s))))
      | _ \<Rightarrow>
          (case py_float eta_token of
             Inl e \<Rightarrow> Inl e
           | Inr x \<Rightarrow>
               (case int_of_float x of
                  Inl e \<Rightarrow> Inl e
                | Inr secs \<Rightarrow>
                    (if 3600 \<le> secs then
                       Inr (str_int (secs div 3600) @ '':'' @ fmt_d2 ((secs mod 3600) div 60)
                            @ '':'' @ fmt_d2 (secs mod 60))
                     else Inr (fmt_d2 (secs div 60) @ '':'' @ fmt_d2 (secs mod 60))))))"

definition format_eta :: "string \<Rightarrow> string" where
  "format_eta eta_token =
     (case format_eta_try eta_token of
        Inl e \<Rightarrow> (if eta_token \<noteq> [] then eta_token else [])
      | Inr t \<Rightarrow> t)"

section \<open>Format selector of a quality preset\<close>

text \<open>
  The head of \<open>_DownloadWorker.run\<close>: the mode string of the worker is mapped to the format
  selector passed to the download tool after \<open>-f\<close>.
\<close>

definition resolve_fmt :: "string \<Rightarrow> py_exc + string" where
  "resolve_fmt mode =
     (if mode = ''video_best'' then Inr ''bv*[ext=mp4]+ba[ext=m4a]/bv*+ba/b[ext=mp4]/b''
      else if startswith mode ''video_'' then
        (case py_index (split_chr CHR ''_'' mode) 1 of
           Inl e \<Rightarrow> Inl e
         | Inr res \<Rightarrow>
             Inr (''bestvideo[height<='' @ res @ ''][ext=mp4]+bestaudio[ext=m4a]/bestvideo[height<=''
                  @ res @ '']+bestaudio/best[height<='' @ res @ ''][ext=mp4]/best[height<=''
                  @ res @ '']/best[ext=mp4]/best''))
      else if startswith mode ''mp3_'' then Inr ''bestaudio/best''
      else if mode = ''m4a_best'' then Inr ''bestaudio[ext=m4a]/bestaudio/best''
      else if mode = ''ogg_best'' then Inr ''bestaudio/best''
      else if mode = ''wma_best'' then Inr ''bestaudio/best''
      else Inr ''b[ext=mp4]/b'')"

text \<open>
  The alternatives of a selector are separated by \<open>/\<close>; the last one is the text after
  the final \<open>/\<close>.  The download tool reads \<open>b\<close> as the short form of \<open>best\<close>.
\<close>

definition last_alternative :: "string \<Rightarrow> string" where
  "last_alternative f = last (split_chr CHR ''/'' f)"

definition generic_best :: "string \<Rightarrow> bool" where
  "generic_best a = (a = ''best'' \<or> a = ''b'')"

definition known_preset :: "string \<Rightarrow> bool" where
  "known_preset mode =
     (mode = ''video_best'' \<or> startswith mode ''video_'' \<or> startswith mode ''mp3_''
      \<or> mode = ''m4a_best'' \<or> mode = ''ogg_best'' \<or> mode = ''wma_best'')"

section \<open>The download worker\<close>

subsection \<open>State, signals and messages\<close>

text \<open>
  The signals of \<open>_DownloadWorker\<close>, in the order of their declaration.  A run of the
  worker is observed through the list of signals it emits, the texts it appends to the
  diagnostic log \<open>ytdlp_debug.log\<close> and the operations it performs on the external process.
  Output printed to the console is not modelled.
\<close>

datatype signal =
    ProgressChanged int
  | SizeTextChanged string
  | DownloadStatsChanged string
  | Finished string string
  | ErrorOccurred string

datatype proc_op = Terminate | WaitTimeout | Kill | WaitExit

text \<open>
  The attributes of the worker set by \<open>__init__\<close>, followed by the local variables of
  \<open>run\<close> and by what the run has done so far.  \<open>process\<close> is \<open>None\<close> while no process has
  been started; otherwise it tells whether the process is still running (\<open>poll()\<close> is
  \<open>None\<close>).
\<close>

record worker =
  w_url :: string
  w_output :: string
  w_mode :: string
  cancelled :: bool
  process :: "bool option"
  download_started :: bool
  real_progress_detected :: bool
  last_progress_value :: int
  download_size_bytes :: pyfloat
  last_path :: "string option"
  download_completed :: bool
  conversion_started :: bool
  last_progress_time :: rat
  error_detected :: bool
  error_message :: string
  total_size_text :: string
  total_size_bytes :: "pyfloat option"
  last_pct_val :: "pyfloat option"
  signals :: "signal list"
  log_writes :: "string list"
  proc_ops :: "proc_op list"

definition new_worker :: "string \<Rightarrow> string \<Rightarrow> string \<Rightarrow> worker" where
  "new_worker u out m =
     \<lparr> w_url = u, w_output = out, w_mode = m, cancelled = False, process = None,
       download_started = False, real_progress_detected = False, last_progress_value = 0,
       download_size_bytes = Finite 0, last_path = None, download_completed = False,
       conversion_started = False, last_progress_time = 0, error_detected = False,
       error_message = [], total_size_text = [], total_size_bytes = None, last_pct_val = None,
       signals = [], log_writes = [], proc_ops = [] \<rparr>"

definition emit :: "signal \<Rightarrow> worker \<Rightarrow> worker" where
  "emit sg w = w\<lparr>signals := signals w @ [sg]\<rparr>"

text \<open>
  A write to the diagnostic log.  The source opens the file inside \<open>try\<close>/\<open>except\<close>, so
  a write that fails is lost silently; the model records the text handed to \<open>write\<close>.
\<close>

definition log_write :: "string \<Rightarrow> worker \<Rightarrow> worker" where
  "log_write t w = w\<lparr>log_writes := log_writes w @ [t]\<rparr>"

text \<open>The texts raised by \<open>run\<close>, as UTF-8.\<close>

definition msg_no_formats :: string where
  "msg_no_formats =
     ''No se encontraron formatos de video disponibles para esta URL''"

definition msg_bad_url :: string where
  "msg_bad_url =
     ''La URL proporcionada no es v'' @ [CHR 0xC3, CHR 0xA1] @ ''lida o no est'' @ [CHR 0xC3, CHR 0xA1] @ '' soportada''"

definition msg_private :: string where
  "msg_private =
     ''Este video es privado o requiere verificaci'' @ [CHR 0xC3, CHR 0xB3] @ ''n de edad''"

definition msg_unavailable :: string where
  "msg_unavailable =
     ''Este video no est'' @ [CHR 0xC3, CHR 0xA1] @ '' disponible''"

definition msg_video_unavailable :: string where
  "msg_video_unavailable =
     ''Video no disponible. Puede haber sido eliminado o marcado como privado''"

definition msg_duplicate :: string where
  "msg_duplicate =
     ''El archivo ya existe. Por favor, elimina el archivo existente o elige un nombre diferente.''"

definition msg_no_file :: string where
  "msg_no_file =
     ''Error: La descarga se complet'' @ [CHR 0xC3, CHR 0xB3] @ '' pero no se encontr'' @ [CHR 0xC3, CHR 0xB3] @ '' ning'' @ [CHR 0xC3, CHR 0xBA] @ ''n archivo. La calidad solicitada puede no estar disponible.''"

definition msg_no_valid_file :: string where
  "msg_no_valid_file =
     ''Error: La descarga se complet'' @ [CHR 0xC3, CHR 0xB3] @ '' pero no se encontr'' @ [CHR 0xC3, CHR 0xB3] @ '' ning'' @ [CHR 0xC3, CHR 0xBA] @ ''n archivo v'' @ [CHR 0xC3, CHR 0xA1] @ ''lido. La calidad solicitada puede no estar disponible.''"

definition msg_too_small :: string where
  "msg_too_small =
     ''Error: El archivo descargado es demasiado peque'' @ [CHR 0xC3, CHR 0xB1] @ ''o. La calidad solicitada puede no estar disponible para este video.''"

definition msg_not_started :: string where
  "msg_not_started =
     ''Error: La descarga no comenz'' @ [CHR 0xC3, CHR 0xB3] @ '' realmente. La calidad solicitada puede no estar disponible.''"

definition msg_no_progress :: string where
  "msg_no_progress =
     ''Error: No se detect'' @ [CHR 0xC3, CHR 0xB3] @ '' progreso real de descarga. La calidad solicitada puede no estar disponible.''"

definition msg_tool_missing :: string where
  "msg_tool_missing =
     ''No se encontr'' @ [CHR 0xC3, CHR 0xB3] @ '' el programa yt-dlp. Aseg'' @ [CHR 0xC3, CHR 0xBA] @ ''rate de que est'' @ [CHR 0xC3, CHR 0xA9] @ '' instalado correctamente.''"

definition msg_permission :: string where
  "msg_permission =
     ''Error de permisos al acceder a los archivos. Verifica los permisos de la carpeta de destino.''"

text \<open>\<open>str(e)\<close> for an exception.\<close>

definition exc_text :: "py_exc \<Rightarrow> string" where
  "exc_text e =
     (case e of
        Exception m \<Rightarrow> m
      | SubprocessError m \<Rightarrow> m
      | IndexError \<Rightarrow> ''list index out of range''
      | ZeroDivisionError \<Rightarrow> ''float division by zero''
      | ValueError \<Rightarrow> ''invalid literal''
      | OverflowError \<Rightarrow> ''cannot convert float infinity to integer''
      | TimeoutExpired \<Rightarrow> ''timed out''
      | FileNotFoundError \<Rightarrow> ''No such file or directory''
      | PermissionError \<Rightarrow> ''Permission denied'')"

text \<open>\<open>_get_last_progress\<close>: the source returns the constant 80.\<close>

definition get_last_progress :: "worker \<Rightarrow> int" where
  "get_last_progress w = 80"

subsection \<open>One line of output\<close>

text \<open>
  The body of the loop \<open>for line in proc.stdout\<close>, block by block in the order of the
  source.  \<open>line\<close> is the stripped line and \<open>now\<close> the reading of \<open>time.time()\<close>.
\<close>

definition error_marker_block :: "string \<Rightarrow> worker \<Rightarrow> worker" where
  "error_marker_block line w =
     (if str_in ''ERROR:'' line \<or> str_in ''Error:'' line then
        log_write (''[ERROR] '' @ line @ [CHR 0x0A])
          (w\<lparr>error_detected := True, error_message := line\<rparr>)
      else w)"

text \<open>
  The chain of \<open>if\<close>/\<open>elif\<close> on known phrases.  \<open>Inl\<close> is a \<open>raise\<close>, with the state at
  that point.  The branches that only print are the ones returning \<open>w\<close> unchanged; the
  branches after the duplicate-file one only print and are left out.
\<close>

definition known_phrase_block :: "string \<Rightarrow> worker \<Rightarrow> (py_exc \<times> worker) + worker" where
  "known_phrase_block line w =
     (if str_in ''No video formats found'' line \<or> str_in ''requested format not available'' line
        then Inl (Exception msg_no_formats, w)
      else if str_in ''Unsupported URL'' line \<or> str_in ''is not a valid URL'' line
        then Inl (Exception msg_bad_url, w)
      else if str_in ''Private video'' line \<or> str_in ''Sign in to confirm your age'' line
        then Inl (Exception msg_private, w)
      else if str_in ''This video is unavailable'' line
        then Inl (Exception msg_unavailable, w)
      else if str_in ''Video unavailable'' line
        then Inl (Exception msg_video_unavailable, w)
      else if str_in ''requested format not available'' line \<or> str_in ''format not available'' line
        then Inr w
      else if str_in ''has already been downloaded'' line \<and> \<not> download_completed w
        then Inr w
      else if str_in ''WARNING:'' line
              \<and> (str_in ''format not available'' line \<or> str_in ''requested format'' line)
        then Inr w
      else if str_in ''Skipping'' line \<and> str_in ''format not available'' line
        then Inr w
      else if str_in ''already exists'' line \<or> str_in ''file already exists'' line
        then Inr (log_write (''[ERROR DUPLICADO] '' @ line @ [CHR 0x0A])
                   (w\<lparr>error_detected := True, error_message := msg_duplicate\<rparr>))
      else Inr w)"

text \<open>\<open>a > n\<close> for a float and an integer.\<close>

definition fgt_int :: "pyfloat \<Rightarrow> int \<Rightarrow> bool" where
  "fgt_int x n = (case x of Finite a \<Rightarrow> of_int n < a | PosInf \<Rightarrow> True | _ \<Rightarrow> False)"

definition crawl_value :: "worker \<Rightarrow> int" where
  "crawl_value w = min 94 (get_last_progress w + 1)"

definition idle_crawl_block :: "rat \<Rightarrow> worker \<Rightarrow> worker" where
  "idle_crawl_block now w =
     (if fgt_int (b64 (now - last_progress_time w)) 1 \<and> download_completed w
         \<and> conversion_started w
      then (emit (ProgressChanged (crawl_value w)) w)\<lparr>last_progress_time := now\<rparr>
      else w)"

definition destination_block :: "string \<Rightarrow> worker \<Rightarrow> (py_exc \<times> worker) + worker" where
  "destination_block line w =
     (if startswith line ''[download] Destination:'' then
        (case py_index (split1 ''Destination:'' line) 1 of
           Inl e \<Rightarrow> Inl (e, w)
         | Inr p \<Rightarrow>
             Inr (emit (ProgressChanged 5) (w\<lparr>last_path := Some (strip p), download_started := True\<rparr>)))
      else Inr w)"

text \<open>
  The percent block is one \<open>try\<close> whose \<open>except Exception: pass\<close> keeps what was done
  before the raise.  Each part returns \<open>Inl\<close> with the state reached when it raises.
\<close>

fun first_percent_token :: "string list \<Rightarrow> string option" where
  "first_percent_token [] = None"
| "first_percent_token (t # ts) =
     (if endswith t ''%'' then Some (rstrip_chr CHR ''%'' t) else first_percent_token ts)"

definition percent_part :: "string \<Rightarrow> rat \<Rightarrow> worker \<Rightarrow> worker + worker" where
  "percent_part line now w =
     (case first_percent_token (split_ws line) of
        None \<Rightarrow> Inr w
      | Some pct_str \<Rightarrow>
          (case py_float pct_str of
             Inl e \<Rightarrow> Inl w
           | Inr v \<Rightarrow>
               (let w1 = w\<lparr>last_pct_val := Some v\<rparr>
                in case int_of_float v of
                     Inl e \<Rightarrow> Inl w1
                   | Inr pct_int \<Rightarrow>
                       (case float_of_int pct_int of
                          Inl e \<Rightarrow> Inl w1
                        | Inr pf \<Rightarrow>
                            (case int_of_float (fmul pf (Finite (3 / 4))) of
                               Inl e \<Rightarrow> Inl w1
                             | Inr adjusted_pct \<Rightarrow>
                                 (let w2 = (emit (ProgressChanged (max 5 (min 75 adjusted_pct))) w1)
                                             \<lparr>last_progress_time := now\<rparr>
                                  in Inr (if last_progress_value w2 < pct_int
                                          then w2\<lparr>real_progress_detected := True,
                                                  last_progress_value := pct_int\<rparr>
                                          else w2)))))))"

definition size_part :: "string \<Rightarrow> worker \<Rightarrow> worker + worker" where
  "size_part line w =
     (if str_in '' of '' line then
        (case py_index (split1 '' of '' line) 1 of
           Inl e \<Rightarrow> Inl w
         | Inr after_of \<Rightarrow>
             (case py_index (split_ws after_of) 0 of
                Inl e \<Rightarrow> Inl w
              | Inr size_token \<Rightarrow>
                  (let human_text = humanize_yt_dlp_size size_token;
                       w1 = (if human_text \<noteq> [] \<and> human_text \<noteq> total_size_text w then
                               (let w' = w\<lparr>total_size_text := human_text\<rparr>
                                in if \<not> download_completed w' then emit (SizeTextChanged human_text) w'
                                   else w')
                             else w);
                       w2 = w1\<lparr>total_size_bytes := size_token_to_bytes size_token\<rparr>
                   in Inr (case total_size_bytes w2 of
                             None \<Rightarrow> w2
                           | Some b \<Rightarrow> (if float_truthy b then w2\<lparr>download_size_bytes := b\<rparr> else w2)))))
      else Inr w)"

definition speed_part :: "string \<Rightarrow> py_exc + string" where
  "speed_part line =
     (if str_in '' at '' line then
        (case py_index (split1 '' at '' line) 1 of
           Inl e \<Rightarrow> Inl e
         | Inr after_at \<Rightarrow>
             (case py_index (split_ws after_at) 0 of
                Inl e \<Rightarrow> Inl e
              | Inr speed_token \<Rightarrow> Inr (humanize_speed speed_token)))
      else Inr [])"

definition eta_part :: "string \<Rightarrow> string" where
  "eta_part line =
     (if str_in '' ETA '' line then
        (case py_index (split1 '' ETA '' line) 1 of
           Inl e \<Rightarrow> []
         | Inr part \<Rightarrow> (case py_index (split_ws part) 0 of Inl e \<Rightarrow> [] | Inr t \<Rightarrow> t))
      else [])"

definition status_text :: "string \<Rightarrow> string \<Rightarrow> string \<Rightarrow> string \<Rightarrow> string" where
  "status_text downloaded_human total_text speed_text eta_text =
     ''Descargando'' @ [CHR 0xE2, CHR 0x80, CHR 0xA6] @ '' '' @ downloaded_human @ '' de '' @ total_text
     @ (if speed_text \<noteq> [] then '' '' @ [CHR 0xE2, CHR 0x80, CHR 0x94] @ '' '' @ speed_text else [])
     @ (if eta_text \<noteq> [] \<and> format_eta eta_text \<noteq> []
        then '' '' @ [CHR 0xE2, CHR 0x80, CHR 0x94] @ '' '' @ format_eta eta_text @ '' restantes'' else [])"

definition stats_part :: "string \<Rightarrow> string \<Rightarrow> worker \<Rightarrow> worker + worker" where
  "stats_part speed_text eta_text w =
     (case (last_pct_val w, total_size_bytes w) of
        (Some pct, Some total_bytes) \<Rightarrow>
          (if total_size_text w \<noteq> [] \<and> float_truthy total_bytes then
             (case fdiv pct (Finite 100) of
                Inl e \<Rightarrow> Inl w
              | Inr fraction \<Rightarrow>
                  Inr (emit (DownloadStatsChanged
                         (status_text (humanize_bytes (fmul fraction total_bytes)) (total_size_text w)
                            speed_text eta_text)) w))
           else Inr w)
      | _ \<Rightarrow> Inr w)"

definition percent_block :: "string \<Rightarrow> rat \<Rightarrow> worker \<Rightarrow> worker" where
  "percent_block line now w =
     (if startswith line ''[download]'' \<and> str_in ''%'' line then
        (case percent_part line now w of
           Inl w1 \<Rightarrow> w1
         | Inr w1 \<Rightarrow>
             (case size_part line w1 of
                Inl w2 \<Rightarrow> w2
              | Inr w2 \<Rightarrow>
                  (case speed_part line of
                     Inl e \<Rightarrow> w2
                   | Inr speed_text \<Rightarrow>
                       (case stats_part speed_text (eta_part line) w2 of
                          Inl w3 \<Rightarrow> w3
                        | Inr w3 \<Rightarrow> w3))))
      else w)"

definition download_done_block :: "string \<Rightarrow> rat \<Rightarrow> worker \<Rightarrow> worker" where
  "download_done_block line now w =
     (if startswith line ''[download] 100%'' \<or> (str_in ''Destination:'' line \<and> download_completed w)
      then (emit (ProgressChanged 75) (w\<lparr>download_completed := True\<rparr>))\<lparr>last_progress_time := now\<rparr>
      else w)"

definition conversion_start_block :: "string \<Rightarrow> rat \<Rightarrow> worker \<Rightarrow> worker" where
  "conversion_start_block line now w =
     (if str_in ''Extracting audio'' line \<or> str_in ''Merging formats'' line
      then (emit (ProgressChanged 80) (w\<lparr>download_completed := True, conversion_started := True\<rparr>))
             \<lparr>last_progress_time := now\<rparr>
      else w)"

definition conversion_indicators :: "string list" where
  "conversion_indicators =
     [''Deleting original file'', ''Correcting container'', ''Fixing DASH'',
      ''Merging formats'', ''Converting'', ''Postprocessing'', ''Extracting audio'',
      ''Destination:'', ''Writing metadata'', ''ffmpeg'', ''ETA'', ''at'']"

text \<open>The \<open>for indicator in conversion_indicators\<close> loop, left by \<open>break\<close> at the first hit.\<close>

fun indicator_loop :: "string list \<Rightarrow> string \<Rightarrow> rat \<Rightarrow> worker \<Rightarrow> worker" where
  "indicator_loop [] line now w = w"
| "indicator_loop (indicator # rest) line now w =
     (if str_in indicator line \<and> download_completed w
      then (emit (ProgressChanged (crawl_value (w\<lparr>conversion_started := True\<rparr>)))
              (w\<lparr>conversion_started := True\<rparr>))\<lparr>last_progress_time := now\<rparr>
      else indicator_loop rest line now w)"

definition finalize_block :: "string \<Rightarrow> rat \<Rightarrow> worker \<Rightarrow> worker" where
  "finalize_block line now w =
     (if download_completed w
         \<and> (str_in ''has already been downloaded'' line \<or> str_in ''Post-process file'' line
            \<or> str_in ''Finished downloading'' line)
      then (emit (ProgressChanged 95) w)\<lparr>last_progress_time := now\<rparr>
      else w)"

definition process_line :: "rat \<Rightarrow> string \<Rightarrow> worker \<Rightarrow> (py_exc \<times> worker) + worker" where
  "process_line now raw w =
     (let line = strip raw
      in case known_phrase_block line (error_marker_block line w) of
           Inl r \<Rightarrow> Inl r
         | Inr w1 \<Rightarrow>
             (case destination_block line (idle_crawl_block now w1) of
                Inl r \<Rightarrow> Inl r
              | Inr w2 \<Rightarrow>
                  Inr (finalize_block line now
                         (indicator_loop conversion_indicators line now
                            (conversion_start_block line now
                               (download_done_block line now
                                  (percent_block line now w2)))))))"

subsection \<open>File system\<close>

text \<open>
  The file system is a list of paths with what lies at each: a regular file or a directory,
  its size in bytes and its creation time.  Distinct paths are distinct files, and the file
  system does not change while one of the operations below runs.  \<open>glob_in fs d pat\<close> is
  \<open>glob.glob(os.path.join(d, pat))\<close> for a directory path \<open>d\<close> that satisfies \<open>plain_dir\<close>
  below (none of the characters \<open>*\<close>, \<open>?\<close> and \<open>[\<close>), and a pattern without \<open>[\<close>: the
  entries of \<open>d\<close> whose names match, where a name starting with a dot only matches a
  pattern starting with a dot.
\<close>

datatype fkind = RegularFile | Directory

record fnode =
  f_kind :: fkind
  f_size :: int
  f_ctime :: rat

type_synonym filesystem = "(string \<times> fnode) list"

definition path_exists :: "filesystem \<Rightarrow> string \<Rightarrow> bool" where
  "path_exists fs p = (map_of fs p \<noteq> None)"

definition path_isfile :: "filesystem \<Rightarrow> string \<Rightarrow> bool" where
  "path_isfile fs p = (case map_of fs p of None \<Rightarrow> False | Some n \<Rightarrow> f_kind n = RegularFile)"

definition path_getsize :: "filesystem \<Rightarrow> string \<Rightarrow> py_exc + int" where
  "path_getsize fs p = (case map_of fs p of None \<Rightarrow> Inl FileNotFoundError | Some n \<Rightarrow> Inr (f_size n))"

definition path_getctime :: "filesystem \<Rightarrow> string \<Rightarrow> py_exc + rat" where
  "path_getctime fs p = (case map_of fs p of None \<Rightarrow> Inl FileNotFoundError | Some n \<Rightarrow> Inr (f_ctime n))"

definition basename :: "string \<Rightarrow> string" where
  "basename p = last (split_chr CHR ''/'' p)"

fun wild :: "string \<Rightarrow> string \<Rightarrow> bool" where
  "wild [] s = (s = [])"
| "wild (p # ps) [] = (p = CHR ''*'' \<and> wild ps [])"
| "wild (p # ps) (c # cs) =
     (if p = CHR ''*'' then wild ps (c # cs) \<or> wild (p # ps) cs
      else if p = CHR ''?'' then wild ps cs
      else p = c \<and> wild ps cs)"

definition glob_match :: "string \<Rightarrow> string \<Rightarrow> bool" where
  "glob_match pat name = (wild pat name \<and> (startswith name ''.'' \<longrightarrow> startswith pat ''.''))"

definition dir_prefix :: "string \<Rightarrow> string" where
  "dir_prefix d = (if d = [] \<or> endswith d ''/'' then d else d @ ''/'')"

definition entry_of :: "string \<Rightarrow> string \<Rightarrow> string option" where
  "entry_of d p =
     (if startswith p (dir_prefix d) then
        (let name = drop (length (dir_prefix d)) p
         in if name \<noteq> [] \<and> CHR ''/'' \<notin> set name then Some name else None)
      else None)"

definition glob_in :: "filesystem \<Rightarrow> string \<Rightarrow> string \<Rightarrow> string list" where
  "glob_in fs d pat =
     filter (\<lambda>p. case entry_of d p of None \<Rightarrow> False | Some name \<Rightarrow> glob_match pat name)
       (map fst fs)"

text \<open>
  \<open>plain_dir d\<close>: the directory path holds none of the characters that \<open>glob\<close> expands,
  and does not end in two slashes.  Only for such a directory does \<open>glob_in\<close> give the paths
  that \<open>glob.glob\<close> gives, so every property below that depends on \<open>glob_in\<close> assumes it.
\<close>

definition plain_dir :: "string \<Rightarrow> bool" where
  "plain_dir d = (list_all (\<lambda>c. c \<noteq> CHR ''*'' \<and> c \<noteq> CHR ''?'' \<and> c \<noteq> CHR ''['') d
                  \<and> \<not> endswith d ''//'')"

text \<open>\<open>os.remove\<close>: removing a directory or a missing path raises.\<close>

definition os_remove :: "filesystem \<Rightarrow> string \<Rightarrow> py_exc + filesystem" where
  "os_remove fs p =
     (case map_of fs p of
        None \<Rightarrow> Inl FileNotFoundError
      | Some n \<Rightarrow> (if f_kind n = Directory then Inl PermissionError
                   else Inr (filter (\<lambda>e. fst e \<noteq> p) fs)))"

text \<open>\<open>max(files, key=os.path.getctime)\<close> for a non-empty list: the first of the newest.\<close>

fun latest_from :: "filesystem \<Rightarrow> string \<Rightarrow> rat \<Rightarrow> string list \<Rightarrow> py_exc + string" where
  "latest_from fs best t [] = Inr best"
| "latest_from fs best t (p # ps) =
     (case path_getctime fs p of
        Inl e \<Rightarrow> Inl e
      | Inr t' \<Rightarrow> (if t < t' then latest_from fs p t' ps else latest_from fs best t ps))"

definition latest_file :: "filesystem \<Rightarrow> string list \<Rightarrow> py_exc + string" where
  "latest_file fs files =
     (case files of
        [] \<Rightarrow> Inl ValueError
      | p # ps \<Rightarrow> (case path_getctime fs p of Inl e \<Rightarrow> Inl e | Inr t \<Rightarrow> latest_from fs p t ps))"

subsection \<open>Cleaning up partial files\<close>

text \<open>
  The two deletion loops of \<open>_cleanup_partial_files\<close>: each file is removed inside its own
  \<open>try\<close>, after \<open>os.path.exists\<close>, and a failure is only printed.
\<close>

fun remove_each :: "string list \<Rightarrow> filesystem \<Rightarrow> filesystem" where
  "remove_each [] fs = fs"
| "remove_each (p # ps) fs =
     remove_each ps
       (if path_exists fs p then (case os_remove fs p of Inl e \<Rightarrow> fs | Inr fs' \<Rightarrow> fs') else fs)"

text \<open>
  \<open>_cleanup_partial_files\<close>.  Both lists are globbed before anything is removed.  The
  branch under \<open>hasattr(self, '_last_path')\<close> is not taken by any worker: no code of the
  application assigns that attribute (the \<open>last_path\<close> of \<open>run\<close> is a local variable).
\<close>

definition cleanup_partial_files :: "string \<Rightarrow> filesystem \<Rightarrow> filesystem" where
  "cleanup_partial_files out fs =
     (let part_files = glob_in fs out ''*.part'';
          ytdl_files = glob_in fs out ''*.ytdl''
      in remove_each ytdl_files (remove_each part_files fs))"

text \<open>
  \<open>DownloadItemWidget._cleanup_partial_files_widget\<close>, for the download directory read from
  the settings.
\<close>

definition cleanup_partial_files_widget :: "string \<Rightarrow> filesystem \<Rightarrow> filesystem" where
  "cleanup_partial_files_widget download_dir fs =
     (let part_files = glob_in fs download_dir ''*.part'';
          ytdl_files = glob_in fs download_dir ''*.ytdl''
      in remove_each ytdl_files (remove_each part_files fs))"

subsection \<open>Cancelling\<close>

text \<open>
  What the external process does when it is asked to stop is not decided by the worker:
  \<open>terminate()\<close> and \<open>kill()\<close> may raise, and \<open>wait(timeout=2)\<close> returns, raises
  \<open>TimeoutExpired\<close> after two seconds, or raises something else.
\<close>

datatype wait_outcome = Exited | TimedOut | WaitRaised py_exc

record proc_env =
  terminate_exc :: "py_exc option"
  wait_result :: wait_outcome
  kill_exc :: "py_exc option"

definition did :: "proc_op \<Rightarrow> worker \<Rightarrow> worker" where
  "did p w = w\<lparr>proc_ops := proc_ops w @ [p]\<rparr>"

text \<open>The \<open>try\<close> of \<open>cancel\<close>: \<open>terminate()\<close>, then \<open>wait(timeout=2)\<close>.\<close>

definition stop_try :: "proc_env \<Rightarrow> worker \<Rightarrow> (py_exc \<times> worker) + worker" where
  "stop_try env w =
     (case terminate_exc env of
        Some e \<Rightarrow> Inl (e, did Terminate w)
      | None \<Rightarrow>
          (case wait_result env of
             Exited \<Rightarrow> Inr ((did WaitTimeout (did Terminate w))\<lparr>process := Some False\<rparr>)
           | TimedOut \<Rightarrow> Inl (TimeoutExpired, did WaitTimeout (did Terminate w))
           | WaitRaised e \<Rightarrow> Inl (e, did WaitTimeout (did Terminate w))))"

text \<open>
  The handlers: \<open>except subprocess.TimeoutExpired\<close> kills, itself inside a
  \<open>try\<close>/\<open>except Exception: pass\<close>; \<open>except Exception: pass\<close> takes every other raise.
\<close>

definition stop_process :: "proc_env \<Rightarrow> worker \<Rightarrow> py_exc + worker" where
  "stop_process env w =
     (case stop_try env w of
        Inr w' \<Rightarrow> Inr w'
      | Inl (e, w') \<Rightarrow>
          (if e = TimeoutExpired then
             (case kill_exc env of
                Some e' \<Rightarrow> Inr (did Kill w')
              | None \<Rightarrow> Inr ((did Kill w')\<lparr>process := Some False\<rparr>))
           else Inr w'))"

definition cancel :: "proc_env \<Rightarrow> filesystem \<Rightarrow> worker \<Rightarrow> py_exc + worker \<times> filesystem" where
  "cancel env fs w =
     (let w1 = w\<lparr>cancelled := True\<rparr>
      in case (if process w1 = Some True then stop_process env w1 else Inr w1) of
           Inl e \<Rightarrow> Inl e
         | Inr w2 \<Rightarrow> Inr (w2, cleanup_partial_files (w_output w2) fs))"

subsection \<open>The run of a worker\<close>

text \<open>
  The environment of one run: whether \<open>Popen\<close> raises, the clock when the loop starts, the
  behaviour of the process when stopped, its return code, the file system at the moment the
  loop is left, and the text \<open>traceback.format_exc()\<close> gives for an exception.  Each line
  read from the process comes with the value of the cancel flag at that moment and the
  reading of the clock.
\<close>

record run_env =
  popen_exc :: "py_exc option"
  start_clock :: rat
  penv :: proc_env
  return_code :: int
  fs_end :: filesystem
  format_exc :: "py_exc \<Rightarrow> string"

datatype loop_exit =
    LoopCancelled worker filesystem
  | LoopRaised py_exc worker
  | LoopDone worker

text \<open>
  The cancel branch of the loop: \<open>terminate()\<close> and \<open>wait(timeout=2)\<close> inside
  \<open>try\<close>/\<open>except Exception: pass\<close>, then the cleanup, then \<open>return\<close>.
\<close>

definition loop_cancel :: "run_env \<Rightarrow> worker \<Rightarrow> loop_exit" where
  "loop_cancel env w =
     (let w1 = (case stop_try (penv env) (w\<lparr>cancelled := True\<rparr>) of
                  Inl (e, w') \<Rightarrow> w'
                | Inr w' \<Rightarrow> w')
      in LoopCancelled w1 (cleanup_partial_files (w_output w1) (fs_end env)))"

fun run_loop :: "run_env \<Rightarrow> (bool \<times> rat \<times> string) list \<Rightarrow> worker \<Rightarrow> loop_exit" where
  "run_loop env [] w = LoopDone w"
| "run_loop env ((flag, now, raw) # rest) w =
     (if cancelled w \<or> flag then loop_cancel env w
      else (case process_line now raw w of
              Inl (e, w') \<Rightarrow> LoopRaised e w'
            | Inr w' \<Rightarrow> run_loop env rest w'))"

text \<open>The checks after the loop, up to the point where the run is known to have succeeded.\<close>

definition recover_path :: "filesystem \<Rightarrow> worker \<Rightarrow> (py_exc \<times> worker) + worker" where
  "recover_path fs w =
     (if last_path w = None \<or> last_path w = Some [] \<or> \<not> path_exists fs (the (last_path w)) then
        (let output_files = glob_in fs (w_output w) ''*''
         in if output_files = [] then Inl (Exception msg_no_file, w)
            else (case latest_file fs output_files of
                    Inl e \<Rightarrow> Inl (e, w)
                  | Inr latest \<Rightarrow>
                      (if path_isfile fs latest then Inr (w\<lparr>last_path := Some latest\<rparr>)
                       else Inl (Exception msg_no_valid_file, w))))
      else Inr w)"

definition check_artifact :: "filesystem \<Rightarrow> worker \<Rightarrow> (py_exc \<times> worker) + worker" where
  "check_artifact fs w =
     (case last_path w of
        None \<Rightarrow> Inr w
      | Some p \<Rightarrow>
          (if p \<noteq> [] \<and> path_exists fs p then
             (case path_getsize fs p of
                Inl e \<Rightarrow> Inl (e, w)
              | Inr file_size \<Rightarrow>
                  (if file_size < 1024 then Inl (Exception msg_too_small, w)
                   else if \<not> download_started w then Inl (Exception msg_not_started, w)
                   else if \<not> real_progress_detected w then Inl (Exception msg_no_progress, w)
                   else Inr w))
           else Inr w))"

definition validate :: "run_env \<Rightarrow> worker \<Rightarrow> (py_exc \<times> worker) + worker" where
  "validate env w =
     (if error_detected w then Inl (Exception (error_message w), w)
      else if return_code env \<noteq> 0 then
        Inl (Exception (''El proceso de descarga fall'' @ [CHR 0xC3, CHR 0xB3] @ '' con c'' @ [CHR 0xC3, CHR 0xB3] @ ''digo de error '' @ str_int (return_code env)), w)
      else (case recover_path (fs_end env) w of
              Inl r \<Rightarrow> Inl r
            | Inr w1 \<Rightarrow> check_artifact (fs_end env) w1))"

definition py_or :: "string option \<Rightarrow> string \<Rightarrow> string" where
  "py_or a b = (case a of None \<Rightarrow> b | Some x \<Rightarrow> (if x = [] then b else x))"

definition complete :: "worker \<Rightarrow> worker" where
  "complete w =
     emit (Finished (basename (py_or (last_path w) (w_url w))) (py_or (last_path w) (w_output w)))
       (emit (ProgressChanged 100) w)"

text \<open>
  The \<open>except\<close> clauses of \<open>run\<close>, in their order.  \<open>unexpected_error m\<close> is the text
  the last clause hands to the user for an exception whose text is \<open>m\<close>.
\<close>

definition unexpected_error :: "string \<Rightarrow> string" where
  "unexpected_error m =
     ''Error inesperado: '' @ m @ ''. Consulta el archivo de log para m'' @ [CHR 0xC3, CHR 0xA1] @ ''s detalles.''"

definition handle_exc :: "run_env \<Rightarrow> py_exc \<Rightarrow> worker \<Rightarrow> worker" where
  "handle_exc env e w =
     (case e of
        SubprocessError m \<Rightarrow> emit (ErrorOccurred (''Error en el proceso de descarga: '' @ m)) w
      | TimeoutExpired \<Rightarrow>
          emit (ErrorOccurred (''Error en el proceso de descarga: '' @ exc_text TimeoutExpired)) w
      | FileNotFoundError \<Rightarrow> emit (ErrorOccurred msg_tool_missing) w
      | PermissionError \<Rightarrow> emit (ErrorOccurred msg_permission) w
      | _ \<Rightarrow>
          emit (ErrorOccurred (unexpected_error (exc_text e)))
            (log_write ([CHR 0x0A] @ ''[ERROR] '' @ format_exc env e @ [CHR 0x0A]) w))"

text \<open>
  \<open>run\<close>.  The check for the transcoder at its head only prints, and the argument list
  handed to \<open>Popen\<close> is not observed by anything below; both are left out.
  \<open>begin_run\<close> is the state when the loop is entered: the process is running and the local
  variables have their initial values.  The result of \<open>run\<close> is the worker at the end of
  the run and the file system it leaves.
\<close>

definition begin_run :: "run_env \<Rightarrow> worker \<Rightarrow> worker" where
  "begin_run env w =
     w\<lparr>process := Some True, last_path := None, download_completed := False,
       conversion_started := False, last_progress_time := start_clock env,
       error_detected := False, error_message := [], total_size_text := [],
       total_size_bytes := None, last_pct_val := None\<rparr>"

definition finish_run :: "run_env \<Rightarrow> worker \<Rightarrow> worker" where
  "finish_run env w =
     (case validate env ((did WaitExit w)\<lparr>process := Some False\<rparr>) of
        Inl (e, w') \<Rightarrow> handle_exc env e w'
      | Inr w' \<Rightarrow> complete w')"

definition run :: "run_env \<Rightarrow> (bool \<times> rat \<times> string) list \<Rightarrow> worker \<Rightarrow> worker \<times> filesystem" where
  "run env lines w =
     (case resolve_fmt (w_mode w) of
        Inl e \<Rightarrow> (handle_exc env e w, fs_end env)
      | Inr fmt \<Rightarrow>
          (case popen_exc env of
             Some e \<Rightarrow> (handle_exc env e (emit (ProgressChanged 1) w), fs_end env)
           | None \<Rightarrow>
               (case run_loop env lines (begin_run env (emit (ProgressChanged 1) w)) of
                  LoopCancelled w' fs' \<Rightarrow> (w', fs')
                | LoopRaised e w' \<Rightarrow> (handle_exc env e w', fs_end env)
                | LoopDone w' \<Rightarrow> (finish_run env w', fs_end env))))"

text \<open>
  What an observer of the signals sees: the percent values in the order of their emission,
  and the signals a worker can emit while it reads the output of the process.
\<close>

definition progress_values :: "signal list \<Rightarrow> int list" where
  "progress_values sgs =
     concat (map (\<lambda>sg. case sg of ProgressChanged v \<Rightarrow> [v] | _ \<Rightarrow> []) sgs)"

definition loop_signal :: "signal \<Rightarrow> bool" where
  "loop_signal sg =
     (case sg of
        ProgressChanged v \<Rightarrow> 5 \<le> v \<and> v \<le> 95
      | SizeTextChanged t \<Rightarrow> True
      | DownloadStatsChanged t \<Rightarrow> True
      | Finished t p \<Rightarrow> False
      | ErrorOccurred m \<Rightarrow> False)"

definition error_texts :: "signal list \<Rightarrow> string list" where
  "error_texts sgs =
     concat (map (\<lambda>sg. case sg of ErrorOccurred m \<Rightarrow> [m] | _ \<Rightarrow> []) sgs)"

text \<open>
  \<open>extends w w'\<close>: from \<open>w\<close> to \<open>w'\<close> the worker has kept its URL and output directory and
  has only added signals of the loop to those it had emitted.
\<close>

definition extends :: "worker \<Rightarrow> worker \<Rightarrow> bool" where
  "extends w w' \<longleftrightarrow> w_output w' = w_output w \<and> w_url w' = w_url w
     \<and> (\<exists>new. signals w' = signals w @ new \<and> list_all loop_signal new)"

definition exit_worker :: "loop_exit \<Rightarrow> worker" where
  "exit_worker x = (case x of LoopCancelled w fs \<Rightarrow> w | LoopRaised e w \<Rightarrow> w | LoopDone w \<Rightarrow> w)"

subsection \<open>Example runs\<close>

text \<open>
  A download of separate video and audio streams: the tool names the first destination,
  reports progress, then names the second destination.  Both files are on disk when the
  process exits with status 0.
\<close>

definition plain_proc :: proc_env where
  "plain_proc = \<lparr> terminate_exc = None, wait_result = Exited, kill_exc = None \<rparr>"

definition two_stream_env :: run_env where
  "two_stream_env =
     \<lparr> popen_exc = None, start_clock = 0, penv = plain_proc, return_code = 0,
       fs_end = [(''/dl/clip.f137.mp4'', \<lparr> f_kind = RegularFile, f_size = 10485760, f_ctime = 1 \<rparr>),
                 (''/dl/clip.f140.m4a'', \<lparr> f_kind = RegularFile, f_size = 4096, f_ctime = 3 \<rparr>)],
       format_exc = (\<lambda>e. []) \<rparr>"

definition two_stream_lines :: "(bool \<times> rat \<times> string) list" where
  "two_stream_lines =
     [(False, 1, ''[download] Destination: /dl/clip.f137.mp4''),
      (False, 2, ''[download]  50.0% of 10.00MiB at 1.00MiB/s ETA 00:05''),
      (False, 3, ''[download] Destination: /dl/clip.f140.m4a'')]"

definition two_stream_signals :: "signal list" where
  "two_stream_signals =
     signals (fst (run two_stream_env two_stream_lines
                     (new_worker ''https://example.org/v'' ''/dl'' ''video_1080'')))"

text \<open>
  A merged download: one destination, the last progress line of the tool, the merge, and
  the deletion of the two source streams.
\<close>

definition merge_env :: run_env where
  "merge_env =
     \<lparr> popen_exc = None, start_clock = 0, penv = plain_proc, return_code = 0,
       fs_end = [(''/dl/clip.mp4'', \<lparr> f_kind = RegularFile, f_size = 10485760, f_ctime = 9 \<rparr>)],
       format_exc = (\<lambda>e. []) \<rparr>"

definition merge_lines :: "(bool \<times> rat \<times> string) list" where
  "merge_lines =
     [(False, 1, ''[download] Destination: /dl/clip.mp4''),
      (False, 2, ''[download] 100% of 10.00MiB in 00:05''),
      (False, 3, ''[Merger] Merging formats into /dl/clip.mp4''),
      (False, 4, ''Deleting original file /dl/clip.f137.mp4 (pass -k to keep)''),
      (False, 5, ''Deleting original file /dl/clip.f140.m4a (pass -k to keep)'')]"

definition merge_signals :: "signal list" where
  "merge_signals =
     signals (fst (run merge_env merge_lines
                     (new_worker ''https://example.org/v'' ''/dl'' ''video_1080'')))"

text \<open>The lines of the examples of the specification.\<close>

definition unavailable_line :: string where
  "unavailable_line = ''ERROR: Video unavailable''"

definition progress_line :: string where
  "progress_line = ''[download]  12.3% of 50.00MiB at 2.31MiB/s ETA 00:40''"

text \<open>A progress line whose total size is an estimate.\<close>

definition estimate_line :: string where
  "estimate_line = ''[download]  12.3% of ~50.00MiB at 2.31MiB/s ETA 00:40''"






definition first_worker :: worker where
  "first_worker = new_worker ''https://example.org/v'' ''/dl'' ''video_1080''"

text \<open>
  \<open>cancel_seen w lines\<close>: the loop over \<open>lines\<close>, started in state \<open>w\<close>, can meet a set
  cancel flag: there is a line, and the flag is set on the worker or arrives with a line.
\<close>

definition cancel_seen :: "worker \<Rightarrow> (bool \<times> rat \<times> string) list \<Rightarrow> bool" where
  "cancel_seen w lines = (lines \<noteq> [] \<and> (cancelled w \<or> list_ex fst lines))"

text \<open>A line of yt-dlp that names the file of a stream.\<close>

definition destination_line :: string where
  "destination_line = ''[download] Destination: /dl/clip.f137.mp4''"









text \<open>\<open>flags_kept w w'\<close>: the two fields that record real progress are the same.\<close>

definition flags_kept :: "worker \<Rightarrow> worker \<Rightarrow> bool" where
  "flags_kept w w' = (real_progress_detected w' = real_progress_detected w
                      \<and> last_progress_value w' = last_progress_value w)"

section \<open>Unique file name for the rename resolution\<close>

text \<open>
  \<open>DownloadsPage._generate_unique_filename\<close>.  \<open>ex\<close> is \<open>os.path.exists\<close> on the file
  system at the time of the call and \<open>now\<close> is \<open>int(time.time())\<close>.  The loop is
  \<open>while True\<close> with the counter starting at 1; it leaves through one of its two
  \<open>return\<close>s.
\<close>

definition candidate_name :: "string \<Rightarrow> string \<Rightarrow> int \<Rightarrow> string" where
  "candidate_name base_name extension counter =
     base_name @ '' ('' @ str_int counter @ '').'' @ extension"

definition timestamp_name :: "string \<Rightarrow> string \<Rightarrow> int \<Rightarrow> string" where
  "timestamp_name base_name extension now = base_name @ ''_'' @ str_int now @ ''.'' @ extension"

function unique_loop ::
  "(string \<Rightarrow> bool) \<Rightarrow> int \<Rightarrow> string \<Rightarrow> string \<Rightarrow> string \<Rightarrow> int \<Rightarrow> string" where
  "unique_loop ex now out_dir base_name extension counter =
     (let filename = candidate_name base_name extension counter;
          filepath = path_join out_dir filename
      in if \<not> ex filepath then filename
         else (let counter' = counter + 1
               in if counter' > 999 then timestamp_name base_name extension now
                  else unique_loop ex now out_dir base_name extension counter'))"
  by pat_completeness auto
termination
  by (relation "measure (\<lambda>(ex, now, out_dir, base_name, extension, counter). nat (1000 - counter))")
     auto

declare unique_loop.simps [simp del]

definition generate_unique_filename ::
  "(string \<Rightarrow> bool) \<Rightarrow> int \<Rightarrow> string \<Rightarrow> string \<Rightarrow> string \<Rightarrow> string" where
  "generate_unique_filename ex now out_dir title extension =
     unique_loop ex now out_dir title extension 1"

section \<open>Properties\<close>

subsection \<open>String helpers\<close>

lemma split_chr_nonempty: "split_chr d s \<noteq> []"
  by (induction s) (auto split: list.splits)

lemma split_chr_no_sep: "d \<notin> set t \<Longrightarrow> split_chr d t = [t]"
  by (induction t) (auto split: list.splits)

lemma split_chr_append_sep:
  "d \<notin> set t \<Longrightarrow> \<exists>w ws. split_chr d (s @ d # t) = w # ws @ [t]"
proof (induction s)
  case Nil
  then show ?case by (simp add: split_chr_no_sep)
next
  case (Cons c s)
  then obtain w ws where "split_chr d (s @ d # t) = w # ws @ [t]" by blast
  then show ?case
    by (cases "c = d") (auto intro: exI [of _ "w # ws"])
qed

lemma last_split_chr:
  "d \<notin> set t \<Longrightarrow> last (split_chr d (s @ d # t)) = t"
  using split_chr_append_sep [of d t s] by auto

lemma startswith_append: "startswith (p @ s) p"
  by (induction p) auto

lemma startswith_iff: "startswith s p \<longleftrightarrow> (\<exists>t. s = p @ t)"
proof (induction s p rule: startswith.induct)
  case (1 s)
  then show ?case by simp
next
  case (2 p ps)
  then show ?case by simp
next
  case (3 c cs p ps)
  then show ?case by auto
qed

subsection \<open>Format selector\<close>

lemma split_chr_video:
  assumes "startswith mode ''video_''"
  shows "\<exists>res. py_index (split_chr CHR ''_'' mode) 1 = Inr res"
proof -
  from assms obtain t where "mode = ''video_'' @ t" by (auto simp: startswith_iff)
  then show ?thesis
    using split_chr_nonempty [of "CHR ''_''" t]
    by (cases "split_chr CHR ''_'' t") (auto simp: py_index_def)
qed

lemma last_alternative_best: "last_alternative (s @ ''/best'') = ''best''"
  unfolding last_alternative_def
  using last_split_chr [of "CHR ''/''" "''best''" s] by simp

lemma last_alternative_b: "last_alternative (s @ ''/b'') = ''b''"
  unfolding last_alternative_def
  using last_split_chr [of "CHR ''/''" "''b''" s] by simp

text \<open>
  Claim C5.  Every mode string resolves to a format selector: the resolution never raises,
  the selector is not empty, and its last alternative is the generic best selector
  (\<open>best\<close>, or its short form \<open>b\<close>).  A mode that none of the branches recognises
  resolves to \<open>b[ext=mp4]/b\<close>: best available, MP4 preferred.
\<close>

theorem resolve_fmt_selector:
  "\<exists>f. resolve_fmt mode = Inr f \<and> f \<noteq> [] \<and> generic_best (last_alternative f)
       \<and> (\<not> known_preset mode \<longrightarrow> f = ''b[ext=mp4]/b'')"
proof -
  consider (vb) "mode = ''video_best''"
    | (v) "mode \<noteq> ''video_best''" "startswith mode ''video_''"
    | (mp3) "mode \<noteq> ''video_best''" "\<not> startswith mode ''video_''" "startswith mode ''mp3_''"
    | (m4a) "mode = ''m4a_best''"
    | (ogg) "mode = ''ogg_best''"
    | (wma) "mode = ''wma_best''"
    | (other) "\<not> known_preset mode"
    unfolding known_preset_def by blast
  then show ?thesis
  proof cases
    case vb
    have "last_alternative (''bv*[ext=mp4]+ba[ext=m4a]/bv*+ba/b[ext=mp4]'' @ ''/b'') = ''b''"
      by (rule last_alternative_b)
    then show ?thesis using vb
      by (simp add: resolve_fmt_def generic_best_def known_preset_def)
  next
    case v
    then obtain res where r: "py_index (split_chr CHR ''_'' mode) 1 = Inr res"
      using split_chr_video by blast
    let ?p = "''bestvideo[height<='' @ res @ ''][ext=mp4]+bestaudio[ext=m4a]/bestvideo[height<=''
                  @ res @ '']+bestaudio/best[height<='' @ res @ ''][ext=mp4]/best[height<=''
                  @ res @ '']/best[ext=mp4]''"
    have "last_alternative (?p @ ''/best'') = ''best''"
      by (rule last_alternative_best)
    then show ?thesis using v r
      by (simp add: resolve_fmt_def generic_best_def known_preset_def)
  next
    case mp3
    have "last_alternative (''bestaudio'' @ ''/best'') = ''best''"
      by (rule last_alternative_best)
    then show ?thesis using mp3
      by (simp add: resolve_fmt_def generic_best_def known_preset_def)
  next
    case m4a
    have "last_alternative (''bestaudio[ext=m4a]/bestaudio'' @ ''/best'') = ''best''"
      by (rule last_alternative_best)
    then show ?thesis using m4a
      by (simp add: resolve_fmt_def generic_best_def known_preset_def)
  next
    case ogg
    have "last_alternative (''bestaudio'' @ ''/best'') = ''best''"
      by (rule last_alternative_best)
    then show ?thesis using ogg
      by (simp add: resolve_fmt_def generic_best_def known_preset_def)
  next
    case wma
    have "last_alternative (''bestaudio'' @ ''/best'') = ''best''"
      by (rule last_alternative_best)
    then show ?thesis using wma
      by (simp add: resolve_fmt_def generic_best_def known_preset_def)
  next
    case other
    have "last_alternative (''b[ext=mp4]'' @ ''/b'') = ''b''"
      by (rule last_alternative_b)
    then show ?thesis using other
      by (auto simp add: resolve_fmt_def generic_best_def known_preset_def)
  qed
qed

theorem resolve_fmt_selector_witness:
  "\<not> known_preset ''flac_best'' \<and> resolve_fmt ''flac_best'' = Inr ''b[ext=mp4]/b''"
  using resolve_fmt_selector [of "''flac_best''"]
  by (simp add: known_preset_def)

subsection \<open>Unique file name\<close>

lemma unique_loop_found:
  assumes "\<not> ex (path_join out (candidate_name b e n))"
    and "\<forall>k. c \<le> k \<and> k < n \<longrightarrow> ex (path_join out (candidate_name b e k))"
    and "c \<le> n" "n \<le> 999"
  shows "unique_loop ex now out b e c = candidate_name b e n"
  using assms
proof (induction "nat (n - c)" arbitrary: c)
  case 0
  then have "c = n" by simp
  then show ?case using 0 by (simp add: unique_loop.simps [of _ _ _ _ _ n])
next
  case (Suc d)
  then have lt: "c < n" by simp
  then have ex: "ex (path_join out (candidate_name b e c))" using Suc.prems by simp
  have "unique_loop ex now out b e (c + 1) = candidate_name b e n"
    using Suc lt by (intro Suc.hyps(1)) auto
  then show ?case using ex lt Suc.prems
    by (simp add: unique_loop.simps [of _ _ _ _ _ c] Let_def)
qed

lemma unique_loop_exhausted:
  assumes "\<forall>k. c \<le> k \<and> k \<le> 999 \<longrightarrow> ex (path_join out (candidate_name b e k))"
    and "c \<le> 999"
  shows "unique_loop ex now out b e c = timestamp_name b e now"
  using assms
proof (induction "nat (999 - c)" arbitrary: c)
  case 0
  then have "c = 999" by simp
  then show ?case using 0 by (simp add: unique_loop.simps [of _ _ _ _ _ 999] Let_def)
next
  case (Suc d)
  then have lt: "c < 999" by simp
  have ex: "ex (path_join out (candidate_name b e c))" using Suc.prems by simp
  have "unique_loop ex now out b e (c + 1) = timestamp_name b e now"
    using Suc lt by (intro Suc.hyps(1)) auto
  then show ?case using ex lt
    by (simp add: unique_loop.simps [of _ _ _ _ _ c] Let_def)
qed

text \<open>
  Claim C8.  The rename resolution returns the name suffixed with \<open> (n)\<close> for the
  smallest \<open>n\<close> from 1 to 999 whose candidate does not exist in the output directory;
  when the candidates 1 to 999 all exist it returns the name suffixed with the timestamp.
\<close>

theorem generate_unique_filename_rename:
  "(1 \<le> n \<and> n \<le> 999
      \<and> \<not> ex (path_join out_dir (candidate_name title extension n))
      \<and> (\<forall>k. 1 \<le> k \<and> k < n \<longrightarrow> ex (path_join out_dir (candidate_name title extension k)))
     \<longrightarrow> generate_unique_filename ex now out_dir title extension = candidate_name title extension n)
   \<and> ((\<forall>k. 1 \<le> k \<and> k \<le> 999 \<longrightarrow> ex (path_join out_dir (candidate_name title extension k)))
     \<longrightarrow> generate_unique_filename ex now out_dir title extension
           = timestamp_name title extension now)"
  unfolding generate_unique_filename_def
  using unique_loop_found [of ex out_dir title extension n 1 now]
    unique_loop_exhausted [of 1 ex out_dir title extension now]
  by auto

theorem generate_unique_filename_rename_witness:
  "generate_unique_filename (\<lambda>p. p = ''/dl/clip.mp4'') 1700000000 ''/dl'' ''clip'' ''mp4''
     = ''clip (1).mp4''
   \<and> generate_unique_filename (\<lambda>p. True) 1700000000 ''/dl'' ''clip'' ''mp4''
     = ''clip_1700000000.mp4''"
proof -
  have c: "candidate_name ''clip'' ''mp4'' 1 = ''clip (1).mp4''"
    by code_simp
  have t: "timestamp_name ''clip'' ''mp4'' 1700000000 = ''clip_1700000000.mp4''"
    by code_simp
  have free: "\<not> (\<lambda>p. p = ''/dl/clip.mp4'') (path_join ''/dl'' (candidate_name ''clip'' ''mp4'' 1))"
    by (simp add: c path_join_def endswith_def)
  have a: "generate_unique_filename (\<lambda>p. p = ''/dl/clip.mp4'') 1700000000 ''/dl'' ''clip'' ''mp4''
            = candidate_name ''clip'' ''mp4'' 1"
    using generate_unique_filename_rename
        [of 1 "\<lambda>p. p = ''/dl/clip.mp4''" "''/dl''" "''clip''" "''mp4''" 1700000000] free
    by auto
  have b: "generate_unique_filename (\<lambda>p. True) 1700000000 ''/dl'' ''clip'' ''mp4''
            = timestamp_name ''clip'' ''mp4'' 1700000000"
    using generate_unique_filename_rename
        [of 1 "\<lambda>p. True" "''/dl''" "''clip''" "''mp4''" 1700000000]
    by simp
  show ?thesis using a b c t by simp
qed

subsection \<open>Signals of a run\<close>

lemma extends_refl [simp]: "extends w w"
  by (simp add: extends_def)

lemma extends_trans: "extends a b \<Longrightarrow> extends b c \<Longrightarrow> extends a c"
  by (auto simp: extends_def)

lemma extends_emit:
  "loop_signal sg \<Longrightarrow> extends w w' \<Longrightarrow> extends w (emit sg w')"
  by (auto simp: extends_def emit_def)

lemma extends_upd [simp]:
  "extends w (w'\<lparr>last_progress_time := t\<rparr>) = extends w w'"
  "extends w (w'\<lparr>download_completed := b\<rparr>) = extends w w'"
  "extends w (w'\<lparr>conversion_started := b\<rparr>) = extends w w'"
  "extends w (w'\<lparr>error_detected := b\<rparr>) = extends w w'"
  "extends w (w'\<lparr>error_message := m\<rparr>) = extends w w'"
  "extends w (w'\<lparr>last_path := lp\<rparr>) = extends w w'"
  "extends w (w'\<lparr>download_started := b\<rparr>) = extends w w'"
  "extends w (w'\<lparr>real_progress_detected := b\<rparr>) = extends w w'"
  "extends w (w'\<lparr>last_progress_value := i\<rparr>) = extends w w'"
  "extends w (w'\<lparr>download_size_bytes := f\<rparr>) = extends w w'"
  "extends w (w'\<lparr>total_size_text := m\<rparr>) = extends w w'"
  "extends w (w'\<lparr>total_size_bytes := fo\<rparr>) = extends w w'"
  "extends w (w'\<lparr>last_pct_val := fo\<rparr>) = extends w w'"
  "extends w (w'\<lparr>log_writes := l\<rparr>) = extends w w'"
  "extends w (w'\<lparr>proc_ops := ops\<rparr>) = extends w w'"
  "extends w (w'\<lparr>process := pr\<rparr>) = extends w w'"
  "extends w (w'\<lparr>cancelled := b\<rparr>) = extends w w'"
  by (simp_all add: extends_def)

lemma loop_signal_simps [simp]:
  "loop_signal (ProgressChanged v) \<longleftrightarrow> 5 \<le> v \<and> v \<le> 95"
  "loop_signal (SizeTextChanged t)"
  "loop_signal (DownloadStatsChanged t)"
  "\<not> loop_signal (Finished t p)"
  "\<not> loop_signal (ErrorOccurred m)"
  by (simp_all add: loop_signal_def)

lemma extends_error_marker: "extends w w' \<Longrightarrow> extends w (error_marker_block line w')"
  by (simp add: error_marker_block_def log_write_def)

lemma extends_known_phrase:
  "extends w w' \<Longrightarrow> known_phrase_block line w' = Inr w'' \<Longrightarrow> extends w w''"
  "extends w w' \<Longrightarrow> known_phrase_block line w' = Inl (e, w'') \<Longrightarrow> extends w w''"
  by (auto simp: known_phrase_block_def log_write_def split: if_splits)

lemma crawl_value_eq [simp]: "crawl_value w = 81"
  by (simp add: crawl_value_def get_last_progress_def)

lemma extends_idle_crawl: "extends w w' \<Longrightarrow> extends w (idle_crawl_block now w')"
  by (simp add: idle_crawl_block_def extends_emit)

lemma extends_destination:
  "extends w w' \<Longrightarrow> destination_block line w' = Inr w'' \<Longrightarrow> extends w w''"
  "extends w w' \<Longrightarrow> destination_block line w' = Inl (e, w'') \<Longrightarrow> extends w w''"
  by (auto simp: destination_block_def extends_emit split: if_splits sum.splits)

lemma extends_percent_part:
  "extends w w' \<Longrightarrow> percent_part line now w' = Inr w'' \<Longrightarrow> extends w w''"
  "extends w w' \<Longrightarrow> percent_part line now w' = Inl w'' \<Longrightarrow> extends w w''"
  by (auto simp: percent_part_def Let_def extends_emit split: if_splits sum.splits option.splits)

lemma extends_size_part:
  "extends w w' \<Longrightarrow> size_part line w' = Inr w'' \<Longrightarrow> extends w w''"
  "extends w w' \<Longrightarrow> size_part line w' = Inl w'' \<Longrightarrow> extends w w''"
  by (auto simp: size_part_def Let_def extends_emit split: if_splits sum.splits option.splits)

lemma extends_stats_part:
  "extends w w' \<Longrightarrow> stats_part sp et w' = Inr w'' \<Longrightarrow> extends w w''"
  "extends w w' \<Longrightarrow> stats_part sp et w' = Inl w'' \<Longrightarrow> extends w w''"
  by (auto simp: stats_part_def Let_def extends_emit split: if_splits sum.splits option.splits)

lemma extends_percent_block:
  assumes "extends w w'"
  shows "extends w (percent_block line now w')"
proof (cases "startswith line ''[download]'' \<and> str_in ''%'' line")
  case False
  then show ?thesis using assms by (auto simp: percent_block_def)
next
  case guard: True
  show ?thesis
  proof (cases "percent_part line now w'")
    case (Inl w1)
    then show ?thesis
      using guard extends_percent_part(2) [OF assms Inl] by (simp add: percent_block_def)
  next
    case p: (Inr w1)
    note e1 = extends_percent_part(1) [OF assms p]
    show ?thesis
    proof (cases "size_part line w1")
      case (Inl w2)
      then show ?thesis
        using guard p extends_size_part(2) [OF e1 Inl] by (simp add: percent_block_def)
    next
      case s: (Inr w2)
      note e2 = extends_size_part(1) [OF e1 s]
      show ?thesis
      proof (cases "speed_part line")
        case (Inl e)
        then show ?thesis using guard p s e2 by (simp add: percent_block_def)
      next
        case sp: (Inr speed_text)
        show ?thesis
        proof (cases "stats_part speed_text (eta_part line) w2")
          case (Inl w3)
          then show ?thesis
            using guard p s sp extends_stats_part(2) [OF e2 Inl] by (simp add: percent_block_def)
        next
          case (Inr w3)
          then show ?thesis
            using guard p s sp extends_stats_part(1) [OF e2 Inr] by (simp add: percent_block_def)
        qed
      qed
    qed
  qed
qed

lemma extends_download_done: "extends w w' \<Longrightarrow> extends w (download_done_block line now w')"
  by (simp add: download_done_block_def extends_emit)

lemma extends_conversion_start: "extends w w' \<Longrightarrow> extends w (conversion_start_block line now w')"
  by (simp add: conversion_start_block_def extends_emit)

lemma extends_indicator_loop: "extends w w' \<Longrightarrow> extends w (indicator_loop inds line now w')"
  by (induction inds) (simp_all add: extends_emit)

lemma extends_finalize: "extends w w' \<Longrightarrow> extends w (finalize_block line now w')"
  by (simp add: finalize_block_def extends_emit)

lemma extends_tail:
  "extends w w2 \<Longrightarrow>
   extends w (finalize_block line now
                 (indicator_loop conversion_indicators line now
                    (conversion_start_block line now
                       (download_done_block line now
                          (percent_block line now w2)))))"
  by (intro extends_finalize extends_indicator_loop extends_conversion_start
        extends_download_done extends_percent_block)

lemma extends_process_line_Inr:
  assumes "process_line now raw w = Inr w'"
  shows "extends w w'"
proof -
  let ?line = "strip raw"
  from assms obtain w1 where w1: "known_phrase_block ?line (error_marker_block ?line w) = Inr w1"
    unfolding process_line_def Let_def by (auto split: sum.splits)
  from assms w1 obtain w2 where w2: "destination_block ?line (idle_crawl_block now w1) = Inr w2"
    unfolding process_line_def Let_def by (auto split: sum.splits)
  have e1: "extends w w1"
    using extends_known_phrase(1) [OF extends_error_marker [OF extends_refl] w1] .
  have e2: "extends w w2"
    using extends_destination(1) [OF extends_idle_crawl [OF e1] w2] .
  from assms w1 w2 have "w' = finalize_block ?line now
                 (indicator_loop conversion_indicators ?line now
                    (conversion_start_block ?line now
                       (download_done_block ?line now
                          (percent_block ?line now w2))))"
    unfolding process_line_def Let_def by simp
  then show ?thesis using extends_tail [OF e2] by simp
qed

lemma extends_process_line_Inl:
  assumes "process_line now raw w = Inl (e, w')"
  shows "extends w w'"
proof -
  let ?line = "strip raw"
  show ?thesis
  proof (cases "known_phrase_block ?line (error_marker_block ?line w)")
    case (Inl r)
    then have "r = (e, w')" using assms unfolding process_line_def Let_def by simp
    then show ?thesis
      using extends_known_phrase(2) [OF extends_error_marker [OF extends_refl]] Inl by blast
  next
    case (Inr w1)
    have e1: "extends w w1"
      using extends_known_phrase(1) [OF extends_error_marker [OF extends_refl] Inr] .
    from assms Inr have "destination_block ?line (idle_crawl_block now w1) = Inl (e, w')"
      unfolding process_line_def Let_def by (auto split: sum.splits)
    then show ?thesis
      using extends_destination(2) [OF extends_idle_crawl [OF e1]] by blast
  qed
qed


lemma extends_stop_try:
  "stop_try env w' = Inr w'' \<Longrightarrow> extends w w' \<Longrightarrow> extends w w''"
  "stop_try env w' = Inl (e, w'') \<Longrightarrow> extends w w' \<Longrightarrow> extends w w''"
  by (auto simp: stop_try_def did_def split: option.splits wait_outcome.splits)

lemma extends_loop_cancel: "extends w (exit_worker (loop_cancel env w))"
proof -
  have e: "extends w (w\<lparr>cancelled := True\<rparr>)" by simp
  show ?thesis
  proof (cases "stop_try (penv env) (w\<lparr>cancelled := True\<rparr>)")
    case (Inl r)
    then obtain x w1 where r: "r = (x, w1)" by (cases r)
    with Inl have "exit_worker (loop_cancel env w) = w1"
      by (simp add: loop_cancel_def Let_def exit_worker_def)
    then show ?thesis using extends_stop_try(2) [OF _ e] Inl r by simp
  next
    case (Inr w1)
    then have "exit_worker (loop_cancel env w) = w1"
      by (simp add: loop_cancel_def Let_def exit_worker_def)
    then show ?thesis using extends_stop_try(1) [OF Inr e] by simp
  qed
qed

lemma run_loop_extends: "extends w (exit_worker (run_loop env lines w))"
proof (induction lines arbitrary: w)
  case Nil
  show ?case by (simp add: exit_worker_def)
next
  case (Cons item rest)
  obtain flag now raw where item: "item = (flag, now, raw)" by (cases item)
  show ?case
  proof (cases "cancelled w \<or> flag")
    case True
    then show ?thesis using item extends_loop_cancel [of w env] by auto
  next
    case nc: False
    show ?thesis
    proof (cases "process_line now raw w")
      case (Inl r)
      then obtain e w1 where r: "r = (e, w1)" by (cases r)
      then show ?thesis
        using nc item Inl extends_process_line_Inl [of now raw w e w1]
        by (simp add: exit_worker_def)
    next
      case (Inr w1)
      then have "run_loop env (item # rest) w = run_loop env rest w1"
        using nc item by simp
      then show ?thesis
        using extends_trans [OF extends_process_line_Inr [OF Inr] Cons.IH [of w1]] by simp
    qed
  qed
qed

lemma resolve_fmt_total: "\<exists>f. resolve_fmt m = Inr f"
proof (cases "m \<noteq> ''video_best'' \<and> startswith m ''video_''")
  case True
  then show ?thesis using split_chr_video [of m] by (auto simp: resolve_fmt_def)
next
  case False
  then show ?thesis by (auto simp: resolve_fmt_def)
qed

lemma signals_handle_exc:
  "\<exists>m. signals (handle_exc env e w) = signals w @ [ErrorOccurred m]"
  by (cases e) (simp_all add: handle_exc_def emit_def log_write_def)

lemma recover_path_signals:
  "recover_path fs w = Inr w' \<Longrightarrow> signals w' = signals w"
  "recover_path fs w = Inl (e, w') \<Longrightarrow> w' = w"
  by (auto simp: recover_path_def Let_def split: if_splits sum.splits)

lemma check_artifact_same:
  "check_artifact fs w = Inr w' \<Longrightarrow> w' = w"
  "check_artifact fs w = Inl (e, w') \<Longrightarrow> w' = w"
  by (auto simp: check_artifact_def split: if_splits sum.splits option.splits)

lemma validate_signals:
  "validate env w = Inr w' \<Longrightarrow> signals w' = signals w"
  "validate env w = Inl (e, w') \<Longrightarrow> signals w' = signals w"
  by (auto simp: validate_def split: if_splits sum.splits
      dest: recover_path_signals check_artifact_same)

lemma signals_finish_run:
  "(\<exists>m. signals (finish_run env w) = signals w @ [ErrorOccurred m])
   \<or> (\<exists>t p. signals (finish_run env w) = signals w @ [ProgressChanged 100, Finished t p])"
proof (cases "validate env ((did WaitExit w)\<lparr>process := Some False\<rparr>)")
  case (Inl r)
  then obtain e w1 where r: "r = (e, w1)" by (cases r)
  have "signals w1 = signals w" using validate_signals(2) Inl r by (fastforce simp: did_def)
  then show ?thesis using Inl r signals_handle_exc [of env e w1] by (simp add: finish_run_def)
next
  case (Inr w1)
  have "signals w1 = signals w" using validate_signals(1) [OF Inr] by (simp add: did_def)
  then show ?thesis using Inr by (simp add: finish_run_def complete_def emit_def)
qed

text \<open>
  A run that ends without a terminal signal was cancelled: the loop saw the flag of the
  worker, or the flag of one of its lines, and the worker it returns has the flag set.
\<close>

lemma cancelled_error_marker [simp]: "cancelled (error_marker_block line w) = cancelled w"
  by (simp add: error_marker_block_def log_write_def)

lemma cancelled_known_phrase:
  "known_phrase_block line w = Inr w' \<Longrightarrow> cancelled w' = cancelled w"
  by (auto simp: known_phrase_block_def log_write_def split: if_splits)

lemma cancelled_idle_crawl [simp]: "cancelled (idle_crawl_block now w) = cancelled w"
  by (simp add: idle_crawl_block_def emit_def)

lemma cancelled_destination:
  "destination_block line w = Inr w' \<Longrightarrow> cancelled w' = cancelled w"
  by (auto simp: destination_block_def emit_def split: if_splits sum.splits)

lemma cancelled_percent_part:
  "percent_part line now w = Inr w' \<Longrightarrow> cancelled w' = cancelled w"
  "percent_part line now w = Inl w' \<Longrightarrow> cancelled w' = cancelled w"
  by (auto simp: percent_part_def Let_def emit_def split: if_splits sum.splits option.splits)

lemma cancelled_size_part:
  "size_part line w = Inr w' \<Longrightarrow> cancelled w' = cancelled w"
  "size_part line w = Inl w' \<Longrightarrow> cancelled w' = cancelled w"
  by (auto simp: size_part_def Let_def emit_def split: if_splits sum.splits option.splits)

lemma cancelled_stats_part:
  "stats_part sp et w = Inr w' \<Longrightarrow> cancelled w' = cancelled w"
  "stats_part sp et w = Inl w' \<Longrightarrow> cancelled w' = cancelled w"
  by (auto simp: stats_part_def Let_def emit_def split: if_splits sum.splits option.splits)

lemma cancelled_percent_block [simp]: "cancelled (percent_block line now w) = cancelled w"
proof (cases "startswith line ''[download]'' \<and> str_in ''%'' line")
  case False
  then show ?thesis by (auto simp: percent_block_def)
next
  case guard: True
  show ?thesis
  proof (cases "percent_part line now w")
    case (Inl w1)
    then show ?thesis using guard cancelled_percent_part(2) [OF Inl] by (simp add: percent_block_def)
  next
    case p: (Inr w1)
    note e1 = cancelled_percent_part(1) [OF p]
    show ?thesis
    proof (cases "size_part line w1")
      case (Inl w2)
      then show ?thesis
        using guard p e1 cancelled_size_part(2) [OF Inl] by (simp add: percent_block_def)
    next
      case s: (Inr w2)
      note e2 = cancelled_size_part(1) [OF s]
      show ?thesis
      proof (cases "speed_part line")
        case (Inl e)
        then show ?thesis using guard p s e1 e2 by (simp add: percent_block_def)
      next
        case sp: (Inr speed_text)
        show ?thesis
        proof (cases "stats_part speed_text (eta_part line) w2")
          case (Inl w3)
          then show ?thesis
            using guard p s sp e1 e2 cancelled_stats_part(2) [OF Inl] by (simp add: percent_block_def)
        next
          case (Inr w3)
          then show ?thesis
            using guard p s sp e1 e2 cancelled_stats_part(1) [OF Inr] by (simp add: percent_block_def)
        qed
      qed
    qed
  qed
qed

lemma cancelled_download_done [simp]: "cancelled (download_done_block line now w) = cancelled w"
  by (simp add: download_done_block_def emit_def)

lemma cancelled_conversion_start [simp]: "cancelled (conversion_start_block line now w) = cancelled w"
  by (simp add: conversion_start_block_def emit_def)

lemma cancelled_indicator_loop [simp]: "cancelled (indicator_loop inds line now w) = cancelled w"
  by (induction inds) (simp_all add: emit_def)

lemma cancelled_finalize [simp]: "cancelled (finalize_block line now w) = cancelled w"
  by (simp add: finalize_block_def emit_def)

lemma process_line_Inr_parts:
  assumes "process_line now raw w = Inr w'"
  obtains w1 w2 where
    "known_phrase_block (strip raw) (error_marker_block (strip raw) w) = Inr w1"
    "destination_block (strip raw) (idle_crawl_block now w1) = Inr w2"
    "w' = finalize_block (strip raw) now
                 (indicator_loop conversion_indicators (strip raw) now
                    (conversion_start_block (strip raw) now
                       (download_done_block (strip raw) now
                          (percent_block (strip raw) now w2))))"
proof -
  let ?line = "strip raw"
  from assms obtain w1 where w1: "known_phrase_block ?line (error_marker_block ?line w) = Inr w1"
    unfolding process_line_def Let_def by (auto split: sum.splits)
  from assms w1 obtain w2 where w2: "destination_block ?line (idle_crawl_block now w1) = Inr w2"
    unfolding process_line_def Let_def by (auto split: sum.splits)
  from assms w1 w2 have "w' = finalize_block ?line now
                 (indicator_loop conversion_indicators ?line now
                    (conversion_start_block ?line now
                       (download_done_block ?line now
                          (percent_block ?line now w2))))"
    unfolding process_line_def Let_def by simp
  then show ?thesis using that w1 w2 by blast
qed

lemma process_line_cancelled:
  assumes "process_line now raw w = Inr w'"
  shows "cancelled w' = cancelled w"
proof -
  from assms obtain w1 w2 where p:
    "known_phrase_block (strip raw) (error_marker_block (strip raw) w) = Inr w1"
    "destination_block (strip raw) (idle_crawl_block now w1) = Inr w2"
    "w' = finalize_block (strip raw) now
                 (indicator_loop conversion_indicators (strip raw) now
                    (conversion_start_block (strip raw) now
                       (download_done_block (strip raw) now
                          (percent_block (strip raw) now w2))))"
    by (rule process_line_Inr_parts)
  show ?thesis
    using cancelled_known_phrase [OF p(1)] cancelled_destination [OF p(2)] p(3) by simp
qed

lemma cancelled_stop_try:
  "cancelled w \<Longrightarrow> stop_try env w = Inr w' \<Longrightarrow> cancelled w'"
  "cancelled w \<Longrightarrow> stop_try env w = Inl (e, w') \<Longrightarrow> cancelled w'"
  by (auto simp: stop_try_def did_def split: option.splits wait_outcome.splits)

lemma loop_cancel_cancelled: "loop_cancel env w = LoopCancelled w' fs' \<Longrightarrow> cancelled w'"
proof -
  assume a: "loop_cancel env w = LoopCancelled w' fs'"
  have c: "cancelled (w\<lparr>cancelled := True\<rparr>)" by simp
  show ?thesis
  proof (cases "stop_try (penv env) (w\<lparr>cancelled := True\<rparr>)")
    case (Inl r)
    obtain e w1 where r: "r = (e, w1)" by (cases r)
    then have "w' = w1" using a Inl by (simp add: loop_cancel_def Let_def)
    then show ?thesis using cancelled_stop_try(2) [OF c] Inl r by blast
  next
    case (Inr w1)
    then have "w' = w1" using a by (simp add: loop_cancel_def Let_def)
    then show ?thesis using cancelled_stop_try(1) [OF c Inr] by simp
  qed
qed

lemma run_loop_cancelled:
  "run_loop env lines w = LoopCancelled w' fs' \<Longrightarrow> cancelled w' \<and> cancel_seen w lines"
proof (induction lines arbitrary: w)
  case Nil
  then show ?case by simp
next
  case (Cons item rest)
  obtain flag now raw where item: "item = (flag, now, raw)" by (cases item)
  show ?case
  proof (cases "cancelled w \<or> flag")
    case True
    then have "loop_cancel env w = LoopCancelled w' fs'" using Cons.prems item by simp
    then show ?thesis using loop_cancel_cancelled True item by (auto simp: cancel_seen_def)
  next
    case nc: False
    show ?thesis
    proof (cases "process_line now raw w")
      case (Inl r)
      then show ?thesis using Cons.prems nc item by (auto split: prod.splits)
    next
      case (Inr w1)
      then have "run_loop env rest w1 = LoopCancelled w' fs'" using Cons.prems nc item by simp
      from Cons.IH [OF this] have "cancelled w'" "cancel_seen w1 rest" by auto
      moreover have "cancelled w1 = cancelled w" using process_line_cancelled [OF Inr] .
      ultimately show ?thesis using item by (auto simp: cancel_seen_def)
    qed
  qed
qed

lemma destination_emits_5:
  assumes "process_line now raw w = Inr w'" "startswith (strip raw) ''[download] Destination:''"
  shows "\<exists>pre post. signals w' = signals w @ pre @ ProgressChanged 5 # post"
proof -
  from assms(1) obtain w1 w2 where p:
    "known_phrase_block (strip raw) (error_marker_block (strip raw) w) = Inr w1"
    "destination_block (strip raw) (idle_crawl_block now w1) = Inr w2"
    "w' = finalize_block (strip raw) now
                 (indicator_loop conversion_indicators (strip raw) now
                    (conversion_start_block (strip raw) now
                       (download_done_block (strip raw) now
                          (percent_block (strip raw) now w2))))"
    by (rule process_line_Inr_parts)
  let ?v = "idle_crawl_block now w1"
  have "extends w ?v"
    using extends_idle_crawl [OF extends_known_phrase(1) [OF extends_error_marker [OF extends_refl] p(1)]] .
  then obtain pre where pre: "signals ?v = signals w @ pre" by (auto simp: extends_def)
  have "signals w2 = signals ?v @ [ProgressChanged 5]"
    using p(2) assms(2) by (auto simp: destination_block_def emit_def split: sum.splits)
  moreover have "extends w2 w'" using extends_tail [OF extends_refl, of w2] p(3) by simp
  then obtain post where "signals w' = signals w2 @ post" by (auto simp: extends_def)
  ultimately show ?thesis using pre by auto
qed

text \<open>
  Claim C1, as amended.  For a worker whose output directory satisfies \<open>plain_dir\<close>, the
  signals of one run are: percent 1; then only signals of the
  loop, whose percents lie between 5 and 95; then one of three endings: nothing more, and
  then the run was cancelled (the worker it returns has the cancel flag set, and the loop
  saw the flag before one of its lines); or one error; or percent 100 followed by the
  finished signal.  So nothing is emitted after the terminal signal, 100 comes only
  directly before the finished signal, and the worker never emits 0.  The percents need
  not increase: every line that starts with \<open>[download] Destination:\<close> and is
  processed without an exception emits percent 5, whatever was emitted before.
\<close>

theorem run_signals:
  "(plain_dir (w_output w) \<longrightarrow>
      (\<exists>new tail. signals (fst (run env lines w)) = signals w @ ProgressChanged 1 # new @ tail
        \<and> list_all loop_signal new
        \<and> ((tail = [] \<and> cancelled (fst (run env lines w)) \<and> cancel_seen w lines)
            \<or> (\<exists>m. tail = [ErrorOccurred m])
            \<or> (\<exists>t p. tail = [ProgressChanged 100, Finished t p]))))
   \<and> (case process_line now raw v of
         Inl r \<Rightarrow> True
       | Inr v' \<Rightarrow>
           startswith (strip raw) ''[download] Destination:'' \<longrightarrow>
           (\<exists>pre post. signals v' = signals v @ pre @ ProgressChanged 5 # post))"
proof
  obtain f where f: "resolve_fmt (w_mode w) = Inr f" using resolve_fmt_total by blast
  let ?w1 = "emit (ProgressChanged 1) w"
  have "\<exists>new tail. signals (fst (run env lines w)) = signals w @ ProgressChanged 1 # new @ tail
      \<and> list_all loop_signal new
      \<and> ((tail = [] \<and> cancelled (fst (run env lines w)) \<and> cancel_seen w lines)
          \<or> (\<exists>m. tail = [ErrorOccurred m])
          \<or> (\<exists>t p. tail = [ProgressChanged 100, Finished t p]))"
  proof (cases "popen_exc env")
    case (Some e)
    then have r: "fst (run env lines w) = handle_exc env e ?w1" using f by (simp add: run_def)
    obtain m where "signals (handle_exc env e ?w1) = signals ?w1 @ [ErrorOccurred m]"
      using signals_handle_exc by blast
    then have "signals (fst (run env lines w)) = signals w @ ProgressChanged 1 # [] @ [ErrorOccurred m]"
      using r by (simp add: emit_def)
    then show ?thesis by (intro exI [of _ "[]"] exI [of _ "[ErrorOccurred m]"]) simp
  next
    case None
    let ?x = "run_loop env lines (begin_run env ?w1)"
    have "extends (begin_run env ?w1) (exit_worker ?x)" by (rule run_loop_extends)
    then obtain new where new: "signals (exit_worker ?x) = signals w @ ProgressChanged 1 # new"
        "list_all loop_signal new"
      by (auto simp: extends_def begin_run_def emit_def)
    show ?thesis
    proof (cases ?x)
      case (LoopCancelled w' fs')
      then have r: "fst (run env lines w) = w'" using f None by (simp add: run_def)
      then have "signals (fst (run env lines w)) = signals w @ ProgressChanged 1 # new @ []"
        using new LoopCancelled by (simp add: exit_worker_def)
      moreover have "cancelled w'" "cancel_seen (begin_run env ?w1) lines"
        using run_loop_cancelled [OF LoopCancelled] by auto
      then have "cancelled (fst (run env lines w))" "cancel_seen w lines"
        using r by (auto simp: cancel_seen_def begin_run_def emit_def)
      ultimately show ?thesis using new(2) by (intro exI [of _ new] exI [of _ "[]"]) simp
    next
      case (LoopRaised e w')
      then have r: "fst (run env lines w) = handle_exc env e w'" using f None by (simp add: run_def)
      obtain m where "signals (handle_exc env e w') = signals w' @ [ErrorOccurred m]"
        using signals_handle_exc by blast
      then have "signals (fst (run env lines w))
                   = signals w @ ProgressChanged 1 # new @ [ErrorOccurred m]"
        using r new LoopRaised by (simp add: exit_worker_def)
      then show ?thesis using new(2)
        by (intro exI [of _ new] exI [of _ "[ErrorOccurred m]"]) simp
    next
      case (LoopDone w')
      then have r: "fst (run env lines w) = finish_run env w'" using f None by (simp add: run_def)
      have w': "signals w' = signals w @ ProgressChanged 1 # new"
        using new LoopDone by (simp add: exit_worker_def)
      from signals_finish_run [of env w'] show ?thesis
      proof
        assume "\<exists>m. signals (finish_run env w') = signals w' @ [ErrorOccurred m]"
        then obtain m where "signals (fst (run env lines w))
                   = signals w @ ProgressChanged 1 # new @ [ErrorOccurred m]"
          using r w' by auto
        then show ?thesis using new(2)
          by (intro exI [of _ new] exI [of _ "[ErrorOccurred m]"]) simp
      next
        assume "\<exists>t p. signals (finish_run env w')
                   = signals w' @ [ProgressChanged 100, Finished t p]"
        then obtain t p where "signals (fst (run env lines w))
                   = signals w @ ProgressChanged 1 # new @ [ProgressChanged 100, Finished t p]"
          using r w' by auto
        then show ?thesis using new(2)
          by (intro exI [of _ new] exI [of _ "[ProgressChanged 100, Finished t p]"]) simp
      qed
    qed
  qed
  then show "plain_dir (w_output w) \<longrightarrow>
      (\<exists>new tail. signals (fst (run env lines w)) = signals w @ ProgressChanged 1 # new @ tail
        \<and> list_all loop_signal new
        \<and> ((tail = [] \<and> cancelled (fst (run env lines w)) \<and> cancel_seen w lines)
            \<or> (\<exists>m. tail = [ErrorOccurred m])
            \<or> (\<exists>t p. tail = [ProgressChanged 100, Finished t p])))"
    by (rule impI)
next
  show "case process_line now raw v of
         Inl r \<Rightarrow> True
       | Inr v' \<Rightarrow>
           startswith (strip raw) ''[download] Destination:'' \<longrightarrow>
           (\<exists>pre post. signals v' = signals v @ pre @ ProgressChanged 5 # post)"
    using destination_emits_5 [of now raw v] by (auto split: sum.splits)
qed

text \<open>The destination line of an example, read by a new worker, emits percent 5.\<close>

theorem run_signals_witness:
  "plain_dir (w_output first_worker)
   \<and> (\<exists>new tail. two_stream_signals = ProgressChanged 1 # new @ tail
         \<and> list_all loop_signal new
         \<and> ((tail = []
               \<and> cancelled (fst (run two_stream_env two_stream_lines first_worker))
               \<and> cancel_seen first_worker two_stream_lines)
             \<or> (\<exists>m. tail = [ErrorOccurred m])
             \<or> (\<exists>t p. tail = [ProgressChanged 100, Finished t p])))
   \<and> startswith (strip destination_line) ''[download] Destination:''
   \<and> (case process_line 1 destination_line first_worker of
         Inl r \<Rightarrow> False
       | Inr v' \<Rightarrow> (\<exists>pre post. signals v' = signals first_worker @ pre @ ProgressChanged 5 # post))"
proof -
  have a: "startswith (strip destination_line) ''[download] Destination:''"
    by code_simp
  have c: "case process_line 1 destination_line first_worker of Inl r \<Rightarrow> False | Inr v' \<Rightarrow> True"
    by code_simp
  have d: "plain_dir (w_output first_worker)" by code_simp
  have e: "signals first_worker = []" by (simp add: first_worker_def new_worker_def)
  note t = run_signals [where env = two_stream_env and lines = two_stream_lines and w = first_worker
        and now = 1 and raw = destination_line and v = first_worker]
  have f: "\<exists>new tail. two_stream_signals = ProgressChanged 1 # new @ tail
         \<and> list_all loop_signal new
         \<and> ((tail = []
               \<and> cancelled (fst (run two_stream_env two_stream_lines first_worker))
               \<and> cancel_seen first_worker two_stream_lines)
             \<or> (\<exists>m. tail = [ErrorOccurred m])
             \<or> (\<exists>t p. tail = [ProgressChanged 100, Finished t p]))"
    using t d e by (simp add: two_stream_signals_def first_worker_def)
  have g: "case process_line 1 destination_line first_worker of
         Inl r \<Rightarrow> False
       | Inr v' \<Rightarrow> (\<exists>pre post. signals v' = signals first_worker @ pre @ ProgressChanged 5 # post)"
    using t a c by (auto split: sum.splits)
  show ?thesis using a d f g by simp
qed


text \<open>
  Claim C1 as stated fails: with two streams the percents of a run that ends with the
  finished signal, and emits no error, go from 37 back to 5.
\<close>

theorem percent_not_monotone:
  "progress_values two_stream_signals = [1, 5, 37, 5, 100] \<and> error_texts two_stream_signals = []"
  by code_simp

subsection \<open>The postprocessing crawl\<close>

text \<open>
  Claim C6.  \<open>_get_last_progress\<close> is documented as returning the last emitted value but
  returns 80, so every crawl event carries 81: in the merged download the crawl events
  after the jump to 80 are 81, 81, 81, where the claim requires 81, 82, 83.
\<close>

theorem crawl_stays_at_81:
  "progress_values merge_signals = [1, 5, 75, 75, 80, 81, 81, 81, 100]"
  by code_simp

subsection \<open>Known error phrases\<close>

lemma unavailable_line_raises:
  assumes "strip raw = unavailable_line"
  shows "process_line now raw w =
     Inl (Exception msg_video_unavailable,
          log_write (''[ERROR] '' @ unavailable_line @ [CHR 0x0A])
            (w\<lparr>error_detected := True, error_message := unavailable_line\<rparr>))"
proof -
  have "known_phrase_block unavailable_line (error_marker_block unavailable_line w) =
     Inl (Exception msg_video_unavailable,
          log_write (''[ERROR] '' @ unavailable_line @ [CHR 0x0A])
            (w\<lparr>error_detected := True, error_message := unavailable_line\<rparr>))"
    by (simp add: unavailable_line_def error_marker_block_def known_phrase_block_def)
  then show ?thesis using assms by (simp add: process_line_def)
qed

text \<open>
  Claim C7.  When the process was started and the worker is not cancelled, a line that
  strips to \<open>ERROR: Video unavailable\<close> ends the run: the only signal after percent 1 is
  the error whose text is the translation for that phrase inside the fixed wording of
  unexpected errors; that text is not the raw line and does not contain it; the raw line
  is written to the diagnostic log, followed by the traceback.
\<close>

theorem video_unavailable_error:
  assumes "popen_exc env = None" and "\<not> cancelled w" and "strip raw = unavailable_line"
  shows "signals (fst (run env ((False, now, raw) # rest) w))
           = signals w @ [ProgressChanged 1, ErrorOccurred (unexpected_error msg_video_unavailable)]
         \<and> log_writes (fst (run env ((False, now, raw) # rest) w))
           = log_writes w @ [''[ERROR] '' @ unavailable_line @ [CHR 0x0A],
                             [CHR 0x0A] @ ''[ERROR] '' @ format_exc env (Exception msg_video_unavailable)
                               @ [CHR 0x0A]]
         \<and> unexpected_error msg_video_unavailable \<noteq> unavailable_line
         \<and> \<not> str_in unavailable_line (unexpected_error msg_video_unavailable)"
proof -
  obtain f where f: "resolve_fmt (w_mode w) = Inr f" using resolve_fmt_total by blast
  have a: "unexpected_error msg_video_unavailable \<noteq> unavailable_line
         \<and> \<not> str_in unavailable_line (unexpected_error msg_video_unavailable)"
    by code_simp
  show ?thesis
    using assms(1,2) f a
    by (simp add: run_def begin_run_def emit_def unavailable_line_raises [OF assms(3)]
        handle_exc_def log_write_def exc_text_def)
qed

theorem video_unavailable_error_witness:
  "strip (''ERROR: Video unavailable'' @ [CHR 0x0A]) = unavailable_line
   \<and> signals (fst (run two_stream_env [(False, 1, ''ERROR: Video unavailable'' @ [CHR 0x0A])]
                   (new_worker ''https://example.org/v'' ''/dl'' ''video_1080'')))
     = [ProgressChanged 1, ErrorOccurred (unexpected_error msg_video_unavailable)]"
proof -
  have s: "strip (''ERROR: Video unavailable'' @ [CHR 0x0A]) = unavailable_line"
    by code_simp
  show ?thesis
    using s video_unavailable_error
      [of two_stream_env "new_worker ''https://example.org/v'' ''/dl'' ''video_1080''"
          "''ERROR: Video unavailable'' @ [CHR 0x0A]" 1 "[]"]
    by (simp add: two_stream_env_def new_worker_def)
qed

subsection \<open>A progress line\<close>

text \<open>
  Claim C3.  At the start of a run, the line
  \<open>[download]  12.3% of 50.00MiB at 2.31MiB/s ETA 00:40\<close> emits percent 9, which is
  \<open>int(12.3 * 0.75)\<close> clamped into 5 to 75; the size text \<open>50.00 MB\<close>; and a status text
  built from \<open>6.15 MB\<close> downloaded (12.3 percent of the total), the speed \<open>2.31 MB/s\<close> and
  the time left \<open>00:40\<close>.  The total is \<open>50 * 1024^2\<close> bytes.
\<close>

theorem progress_line_parsed:
  "(case process_line 0 progress_line (new_worker u out m) of
      Inl r \<Rightarrow> False
    | Inr w \<Rightarrow>
        signals w = [ProgressChanged 9, SizeTextChanged ''50.00 MB'',
                     DownloadStatsChanged (status_text ''6.15 MB'' ''50.00 MB'' ''2.31 MB/s'' ''00:40'')]
        \<and> total_size_bytes w = Some (Finite (50 * 1024 ^ 2))
        \<and> download_size_bytes w = Finite (50 * 1024 ^ 2)
        \<and> last_pct_val w = (case py_float ''12.3'' of Inl e \<Rightarrow> None | Inr p \<Rightarrow> Some p))
   \<and> (case py_float ''12.3'' of
         Inl e \<Rightarrow> False
       | Inr p \<Rightarrow>
           int_of_float (fmul p (Finite (3 / 4))) = Inr 9 \<and> max 5 (min 75 (9 :: int)) = 9
           \<and> (case fdiv p (Finite 100) of
                 Inl e \<Rightarrow> False
               | Inr fr \<Rightarrow> humanize_bytes (fmul fr (Finite (50 * 1024 ^ 2))) = ''6.15 MB''))
   \<and> speed_part progress_line = Inr ''2.31 MB/s''
   \<and> eta_part progress_line = ''00:40''
   \<and> format_eta ''00:40'' = ''00:40''"
  by code_simp

subsection \<open>Token normalisation helpers\<close>

lemma digit_cases:
  "is_digit c \<Longrightarrow>
   c = CHR ''0'' \<or> c = CHR ''1'' \<or> c = CHR ''2'' \<or> c = CHR ''3'' \<or> c = CHR ''4''
   \<or> c = CHR ''5'' \<or> c = CHR ''6'' \<or> c = CHR ''7'' \<or> c = CHR ''8'' \<or> c = CHR ''9''"
  by (simp add: is_digit_def)

lemma lower_chr_digit:
  "lower_chr CHR ''0'' = CHR ''0''" "lower_chr CHR ''1'' = CHR ''1''"
  "lower_chr CHR ''2'' = CHR ''2''" "lower_chr CHR ''3'' = CHR ''3''"
  "lower_chr CHR ''4'' = CHR ''4''" "lower_chr CHR ''5'' = CHR ''5''"
  "lower_chr CHR ''6'' = CHR ''6''" "lower_chr CHR ''7'' = CHR ''7''"
  "lower_chr CHR ''8'' = CHR ''8''" "lower_chr CHR ''9'' = CHR ''9''"
  by code_simp+

lemma digit_not_special:
  assumes "is_digit c"
  shows "\<not> is_space_c c" "c \<noteq> CHR ''-''" "c \<noteq> CHR ''+''" "c \<noteq> CHR ''_''" "c \<noteq> CHR ''.''"
    "lower_chr c = c" "c \<noteq> CHR ''i''" "c \<noteq> CHR ''n''"
  using digit_cases [OF assms]
  by (elim disjE; simp add: is_space_c_def lower_chr_digit)+

lemma digit_is_ascii:
  assumes "is_digit c"
  shows "is_ascii c"
  using digit_cases [OF assms] by (elim disjE; simp add: is_ascii_def)

lemma dot_is_ascii: "is_ascii CHR ''.''"
  by (simp add: is_ascii_def)

lemma strip_c_id:
  assumes "s \<noteq> []" "\<not> is_space_c (hd s)" "\<not> is_space_c (last s)"
  shows "strip_c s = s"
proof -
  from assms(1,2) have a: "dropWhile is_space_c s = s" by (cases s) auto
  from assms(1,3) have "dropWhile is_space_c (rev s) = rev s"
    by (cases "rev s") (auto simp: last_rev [symmetric] hd_rev)
  then show ?thesis by (simp add: strip_c_def a)
qed

lemma digitpart_rest_all:
  "list_all is_digit ds \<Longrightarrow> digitpart_rest ds = (ds, [])"
proof (induction ds)
  case Nil
  then show ?case by simp
next
  case (Cons c ds)
  then show ?case by (cases ds) auto
qed

lemma digitpart_rest_dot:
  "list_all is_digit ds \<Longrightarrow> digitpart_rest (ds @ CHR ''.'' # r) = (ds, CHR ''.'' # r)"
proof (induction ds)
  case Nil
  have "\<not> is_digit CHR ''.''" by (simp add: is_digit_def)
  then show ?case by (cases r) auto
next
  case (Cons c ds)
  then show ?case by (cases "ds @ CHR ''.'' # r") auto
qed

lemma take_digitpart_all:
  "ds \<noteq> [] \<Longrightarrow> list_all is_digit ds \<Longrightarrow> take_digitpart ds = Some (ds, [])"
  by (cases ds) (auto simp: take_digitpart_def digitpart_rest_all)

lemma take_digitpart_dot:
  "ds \<noteq> [] \<Longrightarrow> list_all is_digit ds \<Longrightarrow>
   take_digitpart (ds @ CHR ''.'' # r) = Some (ds, CHR ''.'' # r)"
  by (cases ds) (auto simp: take_digitpart_def digitpart_rest_dot)

lemma float_number_digits:
  assumes "d1 \<noteq> []" "list_all is_digit d1"
  shows "\<exists>m. float_number d1 = Some m"
  using assms by (simp add: float_number_def take_digitpart_all)

lemma float_number_decimal:
  assumes "d1 \<noteq> []" "list_all is_digit d1" "d2 \<noteq> []" "list_all is_digit d2"
  shows "\<exists>m. float_number (d1 @ CHR ''.'' # d2) = Some m"
  using assms
  by (simp add: float_number_def take_digitpart_dot take_digitpart_all float_exponent_def)

lemma py_float_of_number:
  assumes "g \<noteq> []" "is_digit (hd g)" "is_digit (last g)" "float_number g = Some m"
    and "list_all is_ascii g"
  shows "\<exists>v. py_float g = Inr v"
proof -
  obtain c cs where g: "g = c # cs" using assms(1) by (cases g) auto
  have c: "is_digit c" using assms(2) g by simp
  have n: "to_ascii_numeric g = Some g" using assms(5) by (simp add: to_ascii_numeric_def)
  have s: "strip_c g = g"
    using assms(1-3) digit_not_special(1) by (intro strip_c_id) auto
  have t: "take_sign g = (False, g)"
    using g digit_not_special(2,3) [OF c] by (simp add: take_sign_def)
  have l: "lower g \<noteq> ''inf''" "lower g \<noteq> ''infinity''" "lower g \<noteq> ''nan''"
    using g digit_not_special(6-8) [OF c] by (auto simp: lower_def)
  show ?thesis using n s t l assms(4) by (simp add: py_float_def)
qed

lemma re_size_match_groups:
  assumes "re_size_match token = Some (g, u)"
  shows "(\<exists>v. py_float g = Inr v)
     \<and> (startswith u ''K'' \<or> startswith u ''M'' \<or> startswith u ''G'')"
proof -
  let ?d1 = "takeWhile is_digit token"
  let ?r1 = "dropWhile is_digit token"
  have d1: "?d1 \<noteq> []" using assms by (auto simp: re_size_match_def Let_def split: if_splits)
  have a1: "list_all is_digit ?d1" by (simp add: list_all_iff) (meson set_takeWhileD)
  have u: "startswith u ''K'' \<or> startswith u ''M'' \<or> startswith u ''G''"
    using assms by (auto simp: re_size_match_def Let_def split: if_splits list.splits prod.splits)
  have "g = ?d1 \<or> (\<exists>r. takeWhile is_digit r \<noteq> [] \<and> g = ?d1 @ CHR ''.'' # takeWhile is_digit r)"
    using assms by (auto simp: re_size_match_def Let_def split: if_splits list.splits prod.splits)
  then have "\<exists>v. py_float g = Inr v"
  proof
    assume g: "g = ?d1"
    obtain m where "float_number g = Some m" using float_number_digits [OF d1 a1] g by auto
    moreover have "is_digit (hd g)" "is_digit (last g)"
      using d1 a1 g by (auto simp: list_all_iff)
    moreover have "list_all is_ascii g"
      using a1 g digit_is_ascii by (auto simp: list_all_iff)
    ultimately show ?thesis using py_float_of_number [of g m] d1 g by auto
  next
    assume "\<exists>r. takeWhile is_digit r \<noteq> [] \<and> g = ?d1 @ CHR ''.'' # takeWhile is_digit r"
    then obtain r where r: "takeWhile is_digit r \<noteq> []" and g: "g = ?d1 @ CHR ''.'' # takeWhile is_digit r"
      by blast
    have a2: "list_all is_digit (takeWhile is_digit r)"
      by (simp add: list_all_iff) (meson set_takeWhileD)
    obtain m where "float_number g = Some m"
      using float_number_decimal [OF d1 a1 r a2] g by auto
    moreover have "is_digit (hd g)" using d1 a1 g by (auto simp: list_all_iff)
    moreover have "is_digit (last g)" using r a2 g by (auto simp: list_all_iff)
    moreover have "list_all is_ascii g"
      using a1 a2 g digit_is_ascii dot_is_ascii by (auto simp: list_all_iff)
    ultimately show ?thesis using py_float_of_number [of g m] g by auto
  qed
  then show ?thesis using u by simp
qed

lemma humanize_yt_dlp_size_try_total: "\<exists>t. humanize_yt_dlp_size_try token = Inr t"
proof (cases "re_size_match token")
  case None
  then show ?thesis by (simp add: humanize_yt_dlp_size_try_def)
next
  case (Some gu)
  obtain g u where gu: "gu = (g, u)" by (cases gu)
  then obtain v where "py_float g = Inr v" using re_size_match_groups Some by blast
  then show ?thesis using Some gu by (simp add: humanize_yt_dlp_size_try_def)
qed

lemma size_token_to_bytes_try_total: "\<exists>r. size_token_to_bytes_try token = Inr r"
proof (cases "re_size_match token")
  case None
  then show ?thesis by (simp add: size_token_to_bytes_try_def)
next
  case (Some gu)
  obtain g u where gu: "gu = (g, u)" by (cases gu)
  then obtain v where "py_float g = Inr v" using re_size_match_groups Some by blast
  then show ?thesis using Some gu by (simp add: size_token_to_bytes_try_def Let_def)
qed

lemma size_part_no_match:
  assumes "str_in '' of '' line" "py_index (split1 '' of '' line) 1 = Inr after_of"
    "py_index (split_ws after_of) 0 = Inr token" "re_size_match token = None"
  shows "size_part line w = Inr (w\<lparr>total_size_bytes := None\<rparr>)"
  using assms
  by (simp add: size_part_def Let_def humanize_yt_dlp_size_def humanize_yt_dlp_size_try_def
      size_token_to_bytes_def size_token_to_bytes_try_def)

text \<open>
  Claim C10.  For every token the bodies of the size helpers return without raising, and
  the ETA helper returns the token itself whenever its body raises.  A token that the size
  pattern does not match gives the empty text and \<open>None\<close>; on a progress line with such a
  size token no size text is emitted, the size text and the size in bytes kept by the
  worker stay as they were, and only the local total is set to \<open>None\<close>.
\<close>

theorem normalisation_helpers_total:
  "(\<exists>t. humanize_yt_dlp_size_try token = Inr t)
   \<and> (\<exists>r. size_token_to_bytes_try token = Inr r)
   \<and> format_eta token = (case format_eta_try token of Inl e \<Rightarrow> token | Inr t \<Rightarrow> t)
   \<and> (re_size_match token = None \<longrightarrow>
        humanize_yt_dlp_size token = [] \<and> size_token_to_bytes token = None)
   \<and> (str_in '' of '' line \<and> py_index (split1 '' of '' line) 1 = Inr after_of
        \<and> py_index (split_ws after_of) 0 = Inr token \<and> re_size_match token = None \<longrightarrow>
        size_part line w = Inr (w\<lparr>total_size_bytes := None\<rparr>))"
  using humanize_yt_dlp_size_try_total [of token] size_token_to_bytes_try_total [of token]
    size_part_no_match [of line after_of token w]
  by (auto simp: format_eta_def humanize_yt_dlp_size_def humanize_yt_dlp_size_try_def
      size_token_to_bytes_def size_token_to_bytes_try_def split: sum.splits)

theorem normalisation_helpers_total_witness:
  "re_size_match ''~50.00MiB'' = None
   \<and> humanize_yt_dlp_size ''~50.00MiB'' = [] \<and> size_token_to_bytes ''~50.00MiB'' = None
   \<and> re_size_match ''1.50TiB'' = None
   \<and> humanize_yt_dlp_size ''1.50TiB'' = [] \<and> size_token_to_bytes ''1.50TiB'' = None
   \<and> format_eta_try ''Unknown'' = Inl ValueError \<and> format_eta ''Unknown'' = ''Unknown''
   \<and> size_part estimate_line first_worker
       = Inr (first_worker\<lparr>total_size_bytes := None\<rparr>)"
proof -
  have a: "re_size_match ''~50.00MiB'' = None" "re_size_match ''1.50TiB'' = None"
    "format_eta_try ''Unknown'' = Inl ValueError"
    "str_in '' of '' estimate_line"
    "py_index (split1 '' of '' estimate_line) 1 = Inr ''~50.00MiB at 2.31MiB/s ETA 00:40''"
    "py_index (split_ws ''~50.00MiB at 2.31MiB/s ETA 00:40'') 0 = Inr ''~50.00MiB''"
    by code_simp+
  show ?thesis
    using a
      normalisation_helpers_total [of "''~50.00MiB''" estimate_line
        "''~50.00MiB at 2.31MiB/s ETA 00:40''" first_worker]
      normalisation_helpers_total [of "''1.50TiB''"]
      normalisation_helpers_total [of "''Unknown''"]
    by simp
qed

subsection \<open>Validation after the loop\<close>
















lemma flags_kept_refl [simp]: "flags_kept w w"
  by (simp add: flags_kept_def)




































end
